theory Spec2Isabelle
  imports Complex_Main
begin

section \<open>The simulator bridge of \<^verbatim>\<open>donkeypart_unitysimulator/part.py\<close>\<close>

text \<open>
  The theory embeds the classes \<^verbatim>\<open>FPSTimer\<close> and \<^verbatim>\<open>SteeringServer\<close>.
  Python objects are records, a method takes the object and the world and returns both,
  and an exception is a value: a method returns \<open>Some e\<close> when it raises \<open>e\<close>, next to the
  object and the world as they are at the raise.

  Python floats are modelled by the real numbers they denote: comparisons and the
  literals \<^verbatim>\<open>0.3\<close>, \<^verbatim>\<open>0.0\<close>, \<^verbatim>\<open>100.0\<close> are exact there, the rounding of
  \<^verbatim>\<open>*\<close>, \<^verbatim>\<open>-\<close> and \<^verbatim>\<open>/\<close> is not modelled, and a division by zero raises as in
  Python. The values \<^verbatim>\<open>nan\<close> and \<^verbatim>\<open>inf\<close> are not modelled. Python integers are \<open>int\<close>.
\<close>

subsection \<open>Python values, errors and library functions\<close>

type_synonym sid = string

datatype py_error =
    KeyError string
  | ValueError
  | TypeError
  | DecodeError
  | OverflowError
  | ZeroDivisionError
  | RunError

text \<open>
  A JSON element of the telemetry dictionary: a string, an integer, a float, a boolean,
  \<^verbatim>\<open>null\<close>, or an array or object (\<open>JOther\<close>, whose content no read looks at).
\<close>

datatype jval = JStr string | JInt int | JNum real | JBool bool | JNull | JOther

text \<open>
  The \<^verbatim>\<open>data\<close> argument of \<^verbatim>\<open>telemetry\<close>: \<^verbatim>\<open>None\<close> or a dictionary, kept as an
  association list read with \<open>map_of\<close>.
\<close>

type_synonym pydict = "(string \<times> jval) list"

text \<open>The numbers that reach \<^verbatim>\<open>send_control\<close>: the integers of \<^verbatim>\<open>connect\<close>, the floats of \<^verbatim>\<open>telemetry\<close>.\<close>

datatype pynum = PyInt int | PyFloat real

text \<open>The value given for \<^verbatim>\<open>skip_sid\<close>: the source passes the boolean \<^verbatim>\<open>True\<close>, the transport expects a session id.\<close>

datatype pyarg = PyTrue | PyNone | PySid sid

text \<open>
  The library functions whose results the source consumes without looking inside:
  the parser behind \<^verbatim>\<open>float(str)\<close>, the conversion \<^verbatim>\<open>float(int)\<close> (which raises
  \<^verbatim>\<open>OverflowError\<close> on an integer too large for a double), \<^verbatim>\<open>base64.b64decode\<close>, the decoding
  \<^verbatim>\<open>np.asarray(Image.open(BytesIO(bytes)))\<close>, and \<^verbatim>\<open>float.__str__\<close>.
  \<open>None\<close> is the library raising. Whatever rounding \<^verbatim>\<open>float(int)\<close> does is in
  \<open>int_to_float\<close>.
\<close>

record 'img pylib =
  parse_float :: "string \<Rightarrow> real option"
  int_to_float :: "int \<Rightarrow> real option"
  b64decode :: "string \<Rightarrow> string option"
  image_open :: "string \<Rightarrow> 'img option"
  float_str :: "real \<Rightarrow> string"

text \<open>One call of \<^verbatim>\<open>sio.emit(event, data=..., room=..., skip_sid=...)\<close>; the source never passes \<^verbatim>\<open>room\<close>.\<close>

record emit_call =
  e_event :: string
  e_data :: "(string \<times> string) list"
  e_room :: "sid option"
  e_skip_sid :: pyarg

text \<open>What the program does to the outside, in the order it does it.\<close>

datatype 'img effect =
    PrintConnect sid
  | PrintFps real
  | ImagePartRun 'img
  | KpartRun 'img
  | Emit emit_call

text \<open>
  The world: \<open>clock n\<close> is what the \<open>n\<close>-th call of \<^verbatim>\<open>time.time()\<close> returns, \<open>ticks\<close>
  counts the calls made, \<open>trace\<close> is the effects so far.
\<close>

record 'img world =
  clock :: "nat \<Rightarrow> real"
  ticks :: nat
  trace :: "'img effect list"

definition time_time :: "'img world \<Rightarrow> real \<times> 'img world" where
  "time_time w = (clock w (ticks w), w\<lparr>ticks := Suc (ticks w)\<rparr>)"

definition log :: "'img effect \<Rightarrow> 'img world \<Rightarrow> 'img world" where
  "log x w = w\<lparr>trace := trace w @ [x]\<rparr>"

text \<open>\<^verbatim>\<open>float(x)\<close> on a JSON element.\<close>

fun py_float :: "'img pylib \<Rightarrow> jval \<Rightarrow> py_error + real" where
  "py_float lib (JNum x) = Inr x"
| "py_float lib (JInt i) = (case int_to_float lib i of None \<Rightarrow> Inl OverflowError | Some x \<Rightarrow> Inr x)"
| "py_float lib (JBool b) = Inr (if b then 1 else 0)"
| "py_float lib (JStr s) = (case parse_float lib s of None \<Rightarrow> Inl ValueError | Some x \<Rightarrow> Inr x)"
| "py_float lib JNull = Inl TypeError"
| "py_float lib JOther = Inl TypeError"

text \<open>\<^verbatim>\<open>data[key]\<close>.\<close>

definition getitem :: "pydict \<Rightarrow> string \<Rightarrow> py_error + jval" where
  "getitem d k = (case map_of d k of None \<Rightarrow> Inl (KeyError k) | Some v \<Rightarrow> Inr v)"

text \<open>\<^verbatim>\<open>np.asarray(Image.open(BytesIO(base64.b64decode(imgString))))\<close>.\<close>

fun decode_image :: "'img pylib \<Rightarrow> jval \<Rightarrow> py_error + 'img" where
  "decode_image lib (JStr s) =
     (case b64decode lib s of
        None \<Rightarrow> Inl DecodeError
      | Some bytes \<Rightarrow>
          (case image_open lib bytes of None \<Rightarrow> Inl DecodeError | Some im \<Rightarrow> Inr im))"
| "decode_image lib (JInt i) = Inl TypeError"
| "decode_image lib (JNum x) = Inl TypeError"
| "decode_image lib (JBool b) = Inl TypeError"
| "decode_image lib JNull = Inl TypeError"
| "decode_image lib JOther = Inl TypeError"

text \<open>\<^verbatim>\<open>int.__str__\<close>: decimal digits, a minus sign for a negative number.\<close>

fun nat_str :: "nat \<Rightarrow> string" where
  "nat_str n =
     (if n < 10 then [char_of (48 + n)]
      else nat_str (n div 10) @ [char_of (48 + n mod 10)])"

definition int_str :: "int \<Rightarrow> string" where
  "int_str i = (if i < 0 then CHR ''-'' # nat_str (nat (- i)) else nat_str (nat i))"

text \<open>\<^verbatim>\<open>x.__str__()\<close>.\<close>

fun py_str :: "'img pylib \<Rightarrow> pynum \<Rightarrow> string" where
  "py_str lib (PyInt i) = int_str i"
| "py_str lib (PyFloat x) = float_str lib x"

subsection \<open>The transport\<close>

text \<open>
  \<^verbatim>\<open>socketio.Server.emit\<close> belongs to the python-socketio library, not to this
  program. Its delivery rule is: the participants of \<^verbatim>\<open>room\<close> (every connected client
  when no room is given; a client's own room is named by its session id), each one
  that is not equal to \<^verbatim>\<open>skip_sid\<close>. Session ids are strings, so the boolean \<^verbatim>\<open>True\<close>
  is equal to none of them; the server object has no notion of a current sender.
\<close>

definition recipients :: "sid list \<Rightarrow> emit_call \<Rightarrow> sid list" where
  "recipients conns c =
     filter (\<lambda>s. PySid s \<noteq> e_skip_sid c)
       (case e_room c of None \<Rightarrow> conns | Some r \<Rightarrow> filter (\<lambda>s. s = r) conns)"

definition sio_emit :: "string \<Rightarrow> (string \<times> string) list \<Rightarrow> pyarg \<Rightarrow> 'img world \<Rightarrow> 'img world" where
  "sio_emit ev d skip w =
     log (Emit \<lparr>e_event = ev, e_data = d, e_room = None, e_skip_sid = skip\<rparr>) w"

text \<open>The events emitted, in order.\<close>

fun emits :: "'img effect list \<Rightarrow> emit_call list" where
  "emits [] = []"
| "emits (Emit c # xs) = c # emits xs"
| "emits (_ # xs) = emits xs"

text \<open>The calls made to the two collaborators, in order.\<close>

fun adapter_calls :: "'img effect list \<Rightarrow> 'img effect list" where
  "adapter_calls [] = []"
| "adapter_calls (ImagePartRun im # xs) = ImagePartRun im # adapter_calls xs"
| "adapter_calls (KpartRun im # xs) = KpartRun im # adapter_calls xs"
| "adapter_calls (_ # xs) = adapter_calls xs"

subsection \<open>FPSTimer\<close>

record fpstimer =
  timer_t :: real
  timer_iter :: int

definition reset :: "fpstimer \<Rightarrow> 'img world \<Rightarrow> fpstimer \<times> 'img world" where
  "reset tm w =
     (let (now, w1) = time_time w
      in (tm\<lparr>timer_t := now, timer_iter := 0\<rparr>, w1))"

definition on_frame :: "fpstimer \<Rightarrow> 'img world \<Rightarrow> py_error option \<times> fpstimer \<times> 'img world" where
  "on_frame tm w =
     (let tm1 = tm\<lparr>timer_iter := timer_iter tm + 1\<rparr>
      in if timer_iter tm1 = 100 then
           (let (e, w1) = time_time w
            in if e - timer_t tm1 = 0 then (Some ZeroDivisionError, tm1, w1)
               else
                 (let w2 = log (PrintFps (100 / (e - timer_t tm1))) w1;
                      (now, w3) = time_time w2
                  in (None, tm1\<lparr>timer_t := now, timer_iter := 0\<rparr>, w3)))
         else (None, tm1, w))"

text \<open>Calling \<^verbatim>\<open>on_frame\<close> \<open>n\<close> times in a row; a raise ends the run.\<close>

fun on_frames :: "nat \<Rightarrow> fpstimer \<Rightarrow> 'img world \<Rightarrow> py_error option \<times> fpstimer \<times> 'img world" where
  "on_frames 0 tm w = (None, tm, w)"
| "on_frames (Suc n) tm w =
     (case on_frame tm w of
        (Some e, tm1, w1) \<Rightarrow> (Some e, tm1, w1)
      | (None, tm1, w1) \<Rightarrow> on_frames n tm1 w1)"

subsection \<open>SteeringServer\<close>

text \<open>
  The fields of \<^verbatim>\<open>__init__\<close> that the methods read. \<^verbatim>\<open>kpart.run\<close> and
  \<^verbatim>\<open>image_part.run\<close> are functions of the image that may raise; \<^verbatim>\<open>sio\<close> is the
  emits of the world's trace.
\<close>

record 'img server =
  timer :: fpstimer
  kpart :: "'img \<Rightarrow> py_error + real \<times> real"
  image_part :: "('img \<Rightarrow> py_error + 'img) option"
  steering_scale :: real
  top_speed :: real

definition throttle_control :: "'img server \<Rightarrow> real \<Rightarrow> real \<Rightarrow> real \<Rightarrow> real \<Rightarrow> real" where
  "throttle_control srv last_steering last_throttle speed nn_throttle =
     (if speed < top_speed srv then 0.3 else 0.0)"

definition send_control :: "'img pylib \<Rightarrow> pynum \<Rightarrow> pynum \<Rightarrow> 'img world \<Rightarrow> 'img world" where
  "send_control lib steering_angle throttle w =
     sio_emit ''steer''
       [(''steering_angle'', py_str lib steering_angle), (''throttle'', py_str lib throttle)]
       PyTrue w"

definition connect :: "'img pylib \<Rightarrow> 'img server \<Rightarrow> sid \<Rightarrow> 'img world \<Rightarrow> 'img server \<times> 'img world" where
  "connect lib srv s w =
     (let w1 = log (PrintConnect s) w;
          (tm, w2) = reset (timer srv) w1
      in (srv\<lparr>timer := tm\<rparr>, send_control lib (PyInt 0) (PyInt 0) w2))"

text \<open>
  Lines 130 to 145 of \<^verbatim>\<open>telemetry\<close>: the four reads of the dictionary in the source's
  order, each one raising before the next is tried. Nothing is changed by them.
\<close>

definition decode :: "'img pylib \<Rightarrow> pydict \<Rightarrow> py_error + (real \<times> real \<times> real \<times> 'img)" where
  "decode lib d =
     (case getitem d ''steering_angle'' of Inl e \<Rightarrow> Inl e | Inr v1 \<Rightarrow>
      case py_float lib v1 of Inl e \<Rightarrow> Inl e | Inr last_steering \<Rightarrow>
      case getitem d ''throttle'' of Inl e \<Rightarrow> Inl e | Inr v2 \<Rightarrow>
      case py_float lib v2 of Inl e \<Rightarrow> Inl e | Inr last_throttle \<Rightarrow>
      case getitem d ''speed'' of Inl e \<Rightarrow> Inl e | Inr v3 \<Rightarrow>
      case py_float lib v3 of Inl e \<Rightarrow> Inl e | Inr speed \<Rightarrow>
      case getitem d ''image'' of Inl e \<Rightarrow> Inl e | Inr imgString \<Rightarrow>
      case decode_image lib imgString of Inl e \<Rightarrow> Inl e | Inr image_array \<Rightarrow>
      Inr (last_steering, last_throttle, speed, image_array))"

text \<open>Lines 148 and 149: the optional image filter.\<close>

definition preprocess :: "'img server \<Rightarrow> 'img \<Rightarrow> 'img world \<Rightarrow> (py_error + 'img) \<times> 'img world" where
  "preprocess srv image_array w =
     (case image_part srv of
        None \<Rightarrow> (Inr image_array, w)
      | Some run \<Rightarrow> (run image_array, log (ImagePartRun image_array) w))"

text \<open>\<^verbatim>\<open>if data:\<close> holds for a dictionary with at least one key.\<close>

fun truthy :: "pydict option \<Rightarrow> bool" where
  "truthy None = False"
| "truthy (Some d) = (d \<noteq> [])"

definition telemetry ::
  "'img pylib \<Rightarrow> 'img server \<Rightarrow> sid \<Rightarrow> pydict option \<Rightarrow> 'img world
     \<Rightarrow> py_error option \<times> 'img server \<times> 'img world" where
  "telemetry lib srv s data w =
     (if truthy data then
        (case decode lib (the data) of
           Inl e \<Rightarrow> (Some e, srv, w)
         | Inr (last_steering, last_throttle, speed, image_array) \<Rightarrow>
             (case preprocess srv image_array w of
                (Inl e, w1) \<Rightarrow> (Some e, srv, w1)
              | (Inr image_array1, w1) \<Rightarrow>
                  (let w2 = log (KpartRun image_array1) w1
                   in case kpart srv image_array1 of
                        Inl e \<Rightarrow> (Some e, srv, w2)
                      | Inr (steering, nn_throttle) \<Rightarrow>
                          (let throttle = throttle_control srv last_steering last_throttle speed nn_throttle;
                               steering1 = steering * steering_scale srv;
                               w3 = send_control lib (PyFloat steering1) (PyFloat throttle) w2;
                               (r, tm, w4) = on_frame (timer srv) w3
                           in (r, srv\<lparr>timer := tm\<rparr>, w4)))))
      else
        (let w1 = sio_emit ''manual'' [] PyTrue w;
             (r, tm, w2) = on_frame (timer srv) w1
         in (r, srv\<lparr>timer := tm\<rparr>, w2)))"

text \<open>
  \<^verbatim>\<open>__init__\<close>: the arguments are stored as given; \<^verbatim>\<open>FPSTimer()\<close> reads the clock
  once.
\<close>

definition init ::
  "('img \<Rightarrow> py_error + real \<times> real) \<Rightarrow> real \<Rightarrow> ('img \<Rightarrow> py_error + 'img) option \<Rightarrow> real
     \<Rightarrow> 'img world \<Rightarrow> 'img server \<times> 'img world" where
  "init kp ts ip sc w =
     (let (now, w1) = time_time w
      in (\<lparr>timer = \<lparr>timer_t = now, timer_iter = 0\<rparr>, kpart = kp, image_part = ip,
           steering_scale = sc, top_speed = ts\<rparr>, w1))"

subsection \<open>Sequences of operations\<close>

text \<open>
  The four operations of a running server. A handler that raises leaves the server
  object as it is at the raise; the next operation starts from there.
\<close>

datatype op =
    Connect sid
  | Telemetry sid "pydict option"
  | ThrottleControl real real real real
  | SendControl pynum pynum

fun step :: "'img pylib \<Rightarrow> op \<Rightarrow> 'img server \<times> 'img world \<Rightarrow> 'img server \<times> 'img world" where
  "step lib (Connect s) (srv, w) = connect lib srv s w"
| "step lib (Telemetry s data) (srv, w) = snd (telemetry lib srv s data w)"
| "step lib (ThrottleControl a b c d) (srv, w) = (srv, w)"
| "step lib (SendControl a b) (srv, w) = (srv, send_control lib a b w)"

fun run :: "'img pylib \<Rightarrow> op list \<Rightarrow> 'img server \<times> 'img world \<Rightarrow> 'img server \<times> 'img world" where
  "run lib [] st = st"
| "run lib (x # xs) st = run lib xs (step lib x st)"

subsection \<open>A concrete instance\<close>

text \<open>
  A library, a server and a world on which the definitions are evaluated: images are
  strings, the clock advances by one second at each reading, the model always answers
  steering 0.5 and throttle 0.9. The library stands in for the real one on the values
  used below: \<^verbatim>\<open>float(int)\<close> raises from the first integer that rounds out of the range
  of a double and is taken without rounding below it.
\<close>

definition lib0 :: "string pylib" where
  "lib0 =
     \<lparr>parse_float = (\<lambda>s. if s = ''0'' then Some 0 else if s = ''1.5'' then Some 1.5 else None),
      int_to_float = (\<lambda>i. if \<bar>i\<bar> < 2 ^ 1024 - 2 ^ 970 then Some (of_int i) else None),
      b64decode = (\<lambda>s. if s = ''UE5H'' then Some ''PNG'' else None),
      image_open = (\<lambda>b. if b = ''PNG'' then Some ''pixels'' else None),
      float_str = (\<lambda>x. if x = 0.3 then ''0.3'' else if x = 0.5 then ''0.5'' else ''0.0'')\<rparr>"

definition srv0 :: "string server" where
  "srv0 =
     \<lparr>timer = \<lparr>timer_t = 0, timer_iter = 0\<rparr>,
      kpart = (\<lambda>im. Inr (0.5, 0.9)),
      image_part = None,
      steering_scale = 1,
      top_speed = 4\<rparr>"

definition w0 :: "string world" where
  "w0 = \<lparr>clock = (\<lambda>n. real n), ticks = 0, trace = []\<rparr>"

text \<open>A world whose clock stands still between two readings.\<close>

definition w_still :: "string world" where
  "w_still = \<lparr>clock = (\<lambda>n. 7), ticks = 0, trace = []\<rparr>"

definition frame0 :: pydict where
  "frame0 =
     [(''steering_angle'', JStr ''0''), (''throttle'', JStr ''0''),
      (''speed'', JStr ''1.5''), (''image'', JStr ''UE5H'')]"

definition frame_no_speed :: pydict where
  "frame_no_speed =
     [(''steering_angle'', JStr ''0''), (''throttle'', JStr ''0''), (''image'', JStr ''UE5H'')]"

text \<open>
  Three more malformed frames: a throttle that is no number, a speed that is an integer
  too large for a double, an image that is not base64; and a server whose model raises.
\<close>

definition frame_bad_throttle :: pydict where
  "frame_bad_throttle =
     [(''steering_angle'', JStr ''0''), (''throttle'', JStr ''fast''),
      (''speed'', JStr ''1.5''), (''image'', JStr ''UE5H'')]"

definition frame_big_speed :: pydict where
  "frame_big_speed =
     [(''steering_angle'', JStr ''0''), (''throttle'', JStr ''0''),
      (''speed'', JInt (2 ^ 1024)), (''image'', JStr ''UE5H'')]"

definition frame_bad_image :: pydict where
  "frame_bad_image =
     [(''steering_angle'', JStr ''0''), (''throttle'', JStr ''0''),
      (''speed'', JStr ''1.5''), (''image'', JStr ''????'')]"

definition srv_raise :: "string server" where
  "srv_raise = srv0\<lparr>kpart := (\<lambda>im. Inl RunError)\<rparr>"

section \<open>Properties\<close>

subsection \<open>The trace and the frame counter\<close>

text \<open>
  \<open>emits\<close> and \<open>adapter_calls\<close> distribute over the concatenation of traces, and
  \<^verbatim>\<open>on_frame\<close> has three outcomes: the counter goes up, the division raises at the
  100th frame, or the rate is printed and the timer starts again.
\<close>

lemma emits_append: "emits (xs @ ys) = emits xs @ emits ys"
  by (induction xs rule: emits.induct) simp_all

lemma adapter_calls_append: "adapter_calls (xs @ ys) = adapter_calls xs @ adapter_calls ys"
  by (induction xs rule: adapter_calls.induct) simp_all

lemma on_frame_cases:
  "on_frame tm w = (None, tm\<lparr>timer_iter := timer_iter tm + 1\<rparr>, w) \<and> timer_iter tm + 1 \<noteq> 100
   \<or> on_frame tm w =
        (Some ZeroDivisionError, tm\<lparr>timer_iter := 100\<rparr>, w\<lparr>ticks := Suc (ticks w)\<rparr>)
      \<and> timer_iter tm + 1 = 100 \<and> clock w (ticks w) = timer_t tm
   \<or> on_frame tm w =
        (None, tm\<lparr>timer_t := clock w (Suc (ticks w)), timer_iter := 0\<rparr>,
         w\<lparr>ticks := Suc (Suc (ticks w)),
           trace := trace w @ [PrintFps (100 / (clock w (ticks w) - timer_t tm))]\<rparr>)
      \<and> timer_iter tm + 1 = 100 \<and> clock w (ticks w) \<noteq> timer_t tm"
  by (simp add: on_frame_def time_time_def log_def Let_def)

lemma on_frame_emits: "emits (trace (snd (snd (on_frame tm w)))) = emits (trace w)"
  using on_frame_cases [of tm w] by (auto simp: emits_append)

lemma on_frame_adapter_calls:
  "adapter_calls (trace (snd (snd (on_frame tm w)))) = adapter_calls (trace w)"
  using on_frame_cases [of tm w] by (auto simp: adapter_calls_append)

lemma on_frame_iter:
  "timer_iter (fst (snd (on_frame tm w))) =
     (if timer_iter tm + 1 = 100 \<and> fst (on_frame tm w) = None then 0 else timer_iter tm + 1)"
  using on_frame_cases [of tm w] by auto

lemma on_frame_trace: "\<exists>ys. trace (snd (snd (on_frame tm w))) = trace w @ ys"
  using on_frame_cases [of tm w] by auto

subsection \<open>The throttle policy\<close>

text \<open>
  C4. \<^verbatim>\<open>throttle_control\<close> returns exactly 0.3 when the speed is below the configured
  top speed and exactly 0.0 when it is not, whatever the last steering, the last throttle
  and the proposed throttle are.
\<close>

theorem throttle_control_policy:
  "(speed < top_speed srv \<longrightarrow> throttle_control srv ls lt speed nn = 0.3)
   \<and> (speed \<ge> top_speed srv \<longrightarrow> throttle_control srv ls lt speed nn = 0.0)
   \<and> throttle_control srv ls lt speed nn = throttle_control srv ls' lt' speed nn'"
  by (simp add: throttle_control_def)

text \<open>
  At top speed 4: speed 1.5 gives 0.3, speed 4 gives 0.0, and changing the other three
  arguments changes nothing.
\<close>

theorem throttle_control_policy_witness:
  "throttle_control srv0 0 0 1.5 0.9 = 0.3 \<and> throttle_control srv0 0 0 4 0.9 = 0.0
   \<and> throttle_control srv0 0 0 1.5 0.9 = throttle_control srv0 1 1 1.5 0"
proof -
  have a: "(1.5::real) < top_speed srv0" and b: "(4::real) \<ge> top_speed srv0"
    by (simp_all add: srv0_def)
  from throttle_control_policy [of "1.5" srv0 0 0 "0.9" 1 1 0]
    throttle_control_policy [of 4 srv0 0 0 "0.9" 1 1 0] a b
  show ?thesis by simp
qed

subsection \<open>Malformed payloads\<close>

text \<open>
  The reads of \<open>decode\<close> fail exactly when a key is missing, a scalar does not parse
  as a float, or the image does not decode.
\<close>

lemma decode_Inl_iff:
  "(\<exists>e. decode lib d = Inl e) \<longleftrightarrow>
     (\<exists>k \<in> set [''steering_angle'', ''throttle'', ''speed'', ''image'']. map_of d k = None)
     \<or> (\<exists>k \<in> set [''steering_angle'', ''throttle'', ''speed''].
           \<exists>v. map_of d k = Some v \<and> isl (py_float lib v))
     \<or> (\<exists>v. map_of d ''image'' = Some v \<and> isl (decode_image lib v))"
  by (auto simp: decode_def getitem_def isl_def split: option.splits sum.splits)

text \<open>
  The errors of the two kinds of read: \<^verbatim>\<open>float\<close> raises \<^verbatim>\<open>ValueError\<close> on a string it
  cannot parse, \<^verbatim>\<open>OverflowError\<close> on an integer too large, \<^verbatim>\<open>TypeError\<close> on \<^verbatim>\<open>null\<close>, an
  array or an object; the image read raises the decoder's error on a string and
  \<^verbatim>\<open>TypeError\<close> on anything else.
\<close>

lemma py_float_errors:
  "py_float lib v = Inl e \<longleftrightarrow>
     (\<exists>t. v = JStr t \<and> parse_float lib t = None \<and> e = ValueError)
     \<or> (\<exists>i. v = JInt i \<and> int_to_float lib i = None \<and> e = OverflowError)
     \<or> ((v = JNull \<or> v = JOther) \<and> e = TypeError)"
  by (cases v) (auto split: option.splits)

lemma decode_image_errors:
  "decode_image lib v = Inl e \<longleftrightarrow>
     (\<exists>t. v = JStr t \<and> e = DecodeError
        \<and> (b64decode lib t = None
             \<or> (\<exists>bytes. b64decode lib t = Some bytes \<and> image_open lib bytes = None)))
     \<or> ((\<forall>t. v \<noteq> JStr t) \<and> e = TypeError)"
  by (cases v) (auto split: option.splits)

text \<open>
  C1, as the code has it. For a non-empty payload, \<^verbatim>\<open>telemetry\<close> raises the error of
  the first read that fails, in the order steering angle, throttle, speed, image:
  \<^verbatim>\<open>KeyError\<close> of the key when the key is missing, the error of \<^verbatim>\<open>float\<close> when a scalar is
  rejected, the error of the image read when the image does not decode. The server object
  and the world are as before the call, so no event is emitted, no collaborator is called
  and the frame counter is not advanced; the operations that follow run as if the frame
  had not been sent. The source has no handler around these reads.
\<close>

theorem telemetry_malformed_raises:
  assumes "d \<noteq> []"
  shows
   "(map_of d ''steering_angle'' = None \<longrightarrow>
       telemetry lib srv s (Some d) w = (Some (KeyError ''steering_angle''), srv, w))
  \<and> (map_of d ''steering_angle'' = Some v1 \<longrightarrow>
       (py_float lib v1 = Inl e \<longrightarrow> telemetry lib srv s (Some d) w = (Some e, srv, w))
     \<and> (py_float lib v1 = Inr x1 \<longrightarrow>
          (map_of d ''throttle'' = None \<longrightarrow>
             telemetry lib srv s (Some d) w = (Some (KeyError ''throttle''), srv, w))
        \<and> (map_of d ''throttle'' = Some v2 \<longrightarrow>
             (py_float lib v2 = Inl e \<longrightarrow> telemetry lib srv s (Some d) w = (Some e, srv, w))
           \<and> (py_float lib v2 = Inr x2 \<longrightarrow>
                (map_of d ''speed'' = None \<longrightarrow>
                   telemetry lib srv s (Some d) w = (Some (KeyError ''speed''), srv, w))
              \<and> (map_of d ''speed'' = Some v3 \<longrightarrow>
                   (py_float lib v3 = Inl e \<longrightarrow>
                      telemetry lib srv s (Some d) w = (Some e, srv, w))
                 \<and> (py_float lib v3 = Inr x3 \<longrightarrow>
                      (map_of d ''image'' = None \<longrightarrow>
                         telemetry lib srv s (Some d) w = (Some (KeyError ''image''), srv, w))
                    \<and> (map_of d ''image'' = Some v4 \<and> decode_image lib v4 = Inl e \<longrightarrow>
                         telemetry lib srv s (Some d) w = (Some e, srv, w))))))))
  \<and> (py_float lib v = Inl e \<longleftrightarrow>
       (\<exists>t. v = JStr t \<and> parse_float lib t = None \<and> e = ValueError)
       \<or> (\<exists>i. v = JInt i \<and> int_to_float lib i = None \<and> e = OverflowError)
       \<or> ((v = JNull \<or> v = JOther) \<and> e = TypeError))
  \<and> (decode_image lib v = Inl e \<longleftrightarrow>
       (\<exists>t. v = JStr t \<and> e = DecodeError
          \<and> (b64decode lib t = None
               \<or> (\<exists>bytes. b64decode lib t = Some bytes \<and> image_open lib bytes = None)))
       \<or> ((\<forall>t. v \<noteq> JStr t) \<and> e = TypeError))
  \<and> ((\<exists>k \<in> set [''steering_angle'', ''throttle'', ''speed'', ''image'']. map_of d k = None)
       \<or> (\<exists>k \<in> set [''steering_angle'', ''throttle'', ''speed''].
             \<exists>u. map_of d k = Some u \<and> isl (py_float lib u))
       \<or> (\<exists>u. map_of d ''image'' = Some u \<and> isl (decode_image lib u))
      \<longrightarrow> (\<exists>e'. telemetry lib srv s (Some d) w = (Some e', srv, w)
                 \<and> (e' \<in> {ValueError, OverflowError, TypeError, DecodeError}
                      \<or> e' \<in> KeyError ` {''steering_angle'', ''throttle'', ''speed'', ''image''}))
          \<and> run lib (Telemetry s (Some d) # ops) (srv, w) = run lib ops (srv, w))"
proof -
  have order: "(map_of d ''steering_angle'' = None \<longrightarrow>
       telemetry lib srv s (Some d) w = (Some (KeyError ''steering_angle''), srv, w))
  \<and> (map_of d ''steering_angle'' = Some v1 \<longrightarrow>
       (py_float lib v1 = Inl e \<longrightarrow> telemetry lib srv s (Some d) w = (Some e, srv, w))
     \<and> (py_float lib v1 = Inr x1 \<longrightarrow>
          (map_of d ''throttle'' = None \<longrightarrow>
             telemetry lib srv s (Some d) w = (Some (KeyError ''throttle''), srv, w))
        \<and> (map_of d ''throttle'' = Some v2 \<longrightarrow>
             (py_float lib v2 = Inl e \<longrightarrow> telemetry lib srv s (Some d) w = (Some e, srv, w))
           \<and> (py_float lib v2 = Inr x2 \<longrightarrow>
                (map_of d ''speed'' = None \<longrightarrow>
                   telemetry lib srv s (Some d) w = (Some (KeyError ''speed''), srv, w))
              \<and> (map_of d ''speed'' = Some v3 \<longrightarrow>
                   (py_float lib v3 = Inl e \<longrightarrow>
                      telemetry lib srv s (Some d) w = (Some e, srv, w))
                 \<and> (py_float lib v3 = Inr x3 \<longrightarrow>
                      (map_of d ''image'' = None \<longrightarrow>
                         telemetry lib srv s (Some d) w = (Some (KeyError ''image''), srv, w))
                    \<and> (map_of d ''image'' = Some v4 \<and> decode_image lib v4 = Inl e \<longrightarrow>
                         telemetry lib srv s (Some d) w = (Some e, srv, w))))))))"
    using assms by (simp add: telemetry_def decode_def getitem_def)
  have general: "(\<exists>e'. telemetry lib srv s (Some d) w = (Some e', srv, w)
                 \<and> (e' \<in> {ValueError, OverflowError, TypeError, DecodeError}
                      \<or> e' \<in> KeyError ` {''steering_angle'', ''throttle'', ''speed'', ''image''}))
          \<and> run lib (Telemetry s (Some d) # ops) (srv, w) = run lib ops (srv, w)"
    if m: "(\<exists>k \<in> set [''steering_angle'', ''throttle'', ''speed'', ''image'']. map_of d k = None)
       \<or> (\<exists>k \<in> set [''steering_angle'', ''throttle'', ''speed''].
             \<exists>u. map_of d k = Some u \<and> isl (py_float lib u))
       \<or> (\<exists>u. map_of d ''image'' = Some u \<and> isl (decode_image lib u))"
  proof -
    from m obtain e' where dec: "decode lib d = Inl e'"
      using decode_Inl_iff [of lib d] by blast
    with assms have t: "telemetry lib srv s (Some d) w = (Some e', srv, w)"
      by (simp add: telemetry_def)
    have kinds: "e0 \<in> {ValueError, OverflowError, TypeError}" if "py_float lib u = Inl e0" for u e0
      using that py_float_errors [of lib u e0] by auto
    have kinds': "e0 \<in> {DecodeError, TypeError}" if "decode_image lib u = Inl e0" for u e0
      using that decode_image_errors [of lib u e0] by auto
    from dec have "e' \<in> {ValueError, OverflowError, TypeError, DecodeError}
        \<or> e' \<in> KeyError ` {''steering_angle'', ''throttle'', ''speed'', ''image''}"
      by (auto simp: decode_def getitem_def split: option.splits sum.splits
          dest!: kinds kinds')
    with t show ?thesis by auto
  qed
  from order py_float_errors [of lib v e] decode_image_errors [of lib v e] general
  show ?thesis by blast
qed

text \<open>
  Four malformed frames: without the key \<^verbatim>\<open>speed\<close>, with a throttle that is no number,
  with a speed too large for a double, with an image that is not base64.
\<close>

theorem telemetry_malformed_raises_witness:
  "telemetry lib0 srv0 ''A'' (Some frame_no_speed) w0 = (Some (KeyError ''speed''), srv0, w0)
   \<and> telemetry lib0 srv0 ''A'' (Some frame_bad_throttle) w0 = (Some ValueError, srv0, w0)
   \<and> telemetry lib0 srv0 ''A'' (Some frame_big_speed) w0 = (Some OverflowError, srv0, w0)
   \<and> telemetry lib0 srv0 ''A'' (Some frame_bad_image) w0 = (Some DecodeError, srv0, w0)
   \<and> run lib0 [Telemetry ''A'' (Some frame_no_speed), Telemetry ''A'' (Some frame0)] (srv0, w0)
       = run lib0 [Telemetry ''A'' (Some frame0)] (srv0, w0)"
proof -
  have z: "py_float lib0 (JStr ''0'') = Inr 0" and f: "py_float lib0 (JStr ''1.5'') = Inr 1.5"
    and t: "py_float lib0 (JStr ''fast'') = Inl ValueError"
    and b: "py_float lib0 (JInt (2 ^ 1024)) = Inl OverflowError"
    and i: "decode_image lib0 (JStr ''????'') = Inl DecodeError"
    by (simp_all add: lib0_def)
  have 1: "telemetry lib0 srv0 ''A'' (Some frame_no_speed) w0 = (Some (KeyError ''speed''), srv0, w0)"
    and 5: "run lib0 [Telemetry ''A'' (Some frame_no_speed), Telemetry ''A'' (Some frame0)] (srv0, w0)
       = run lib0 [Telemetry ''A'' (Some frame0)] (srv0, w0)"
    using telemetry_malformed_raises [where d = frame_no_speed and lib = lib0 and srv = srv0
        and s = "''A''" and w = w0 and ?v1.0 = "JStr ''0''" and ?x1.0 = 0
        and ?v2.0 = "JStr ''0''" and ?x2.0 = 0 and ops = "[Telemetry ''A'' (Some frame0)]"] z
    by (simp_all add: frame_no_speed_def)
  have 2: "telemetry lib0 srv0 ''A'' (Some frame_bad_throttle) w0 = (Some ValueError, srv0, w0)"
    using telemetry_malformed_raises [where d = frame_bad_throttle and lib = lib0 and srv = srv0
        and s = "''A''" and w = w0 and ?v1.0 = "JStr ''0''" and ?x1.0 = 0
        and ?v2.0 = "JStr ''fast''" and e = ValueError] z t
    by (simp add: frame_bad_throttle_def)
  have 3: "telemetry lib0 srv0 ''A'' (Some frame_big_speed) w0 = (Some OverflowError, srv0, w0)"
    using telemetry_malformed_raises [where d = frame_big_speed and lib = lib0 and srv = srv0
        and s = "''A''" and w = w0 and ?v1.0 = "JStr ''0''" and ?x1.0 = 0
        and ?v2.0 = "JStr ''0''" and ?x2.0 = 0 and ?v3.0 = "JInt (2 ^ 1024)"
        and e = OverflowError] z b
    by (simp add: frame_big_speed_def)
  have 4: "telemetry lib0 srv0 ''A'' (Some frame_bad_image) w0 = (Some DecodeError, srv0, w0)"
    using telemetry_malformed_raises [where d = frame_bad_image and lib = lib0 and srv = srv0
        and s = "''A''" and w = w0 and ?v1.0 = "JStr ''0''" and ?x1.0 = 0
        and ?v2.0 = "JStr ''0''" and ?x2.0 = 0 and ?v3.0 = "JStr ''1.5''" and ?x3.0 = "1.5"
        and ?v4.0 = "JStr ''????''" and e = DecodeError] z f i
    by (simp add: frame_bad_image_def)
  from 1 2 3 4 5 show ?thesis by blast
qed

text \<open>
  C1, as stated, asks that the frame be dropped without raising. The payload without
  \<^verbatim>\<open>speed\<close> raises \<^verbatim>\<open>KeyError('speed')\<close>.
\<close>

theorem telemetry_missing_speed_raises:
  "fst (telemetry lib0 srv0 ''A'' (Some frame_no_speed) w0) = Some (KeyError ''speed'')
   \<and> fst (telemetry lib0 srv0 ''A'' (Some frame_no_speed) w0) \<noteq> None"
  by (simp add: telemetry_def decode_def getitem_def lib0_def frame_no_speed_def)

subsection \<open>Addressing of the emitted events\<close>

text \<open>
  A frame that is processed to the end emits exactly one event, a \<^verbatim>\<open>steer\<close> event
  with no room and \<^verbatim>\<open>skip_sid=True\<close>.
\<close>

lemma telemetry_frame_emits:
  assumes "truthy data" and "fst (telemetry lib srv s data w) = None"
  shows "\<exists>a b. emits (trace (snd (snd (telemetry lib srv s data w)))) =
           emits (trace w) @
             [\<lparr>e_event = ''steer'', e_data = [(''steering_angle'', a), (''throttle'', b)],
               e_room = None, e_skip_sid = PyTrue\<rparr>]"
proof -
  from assms obtain ls lt sp img where dec: "decode lib (the data) = Inr (ls, lt, sp, img)"
    by (cases "decode lib (the data)") (auto simp: telemetry_def)
  obtain p w1 where p: "preprocess srv img w = (p, w1)"
    by (cases "preprocess srv img w") auto
  have w1: "emits (trace w1) = emits (trace w)"
    using p by (auto simp: preprocess_def log_def emits_append split: option.splits)
  from assms dec p obtain img1 where pr: "p = Inr img1"
    by (cases p) (auto simp: telemetry_def)
  from assms dec p pr obtain x y where k: "kpart srv img1 = Inr (x, y)"
    by (cases "kpart srv img1") (auto simp: telemetry_def Let_def)
  let ?a = "float_str lib (x * steering_scale srv)"
  let ?b = "float_str lib (throttle_control srv ls lt sp y)"
  let ?wm = "send_control lib (PyFloat (x * steering_scale srv))
     (PyFloat (throttle_control srv ls lt sp y)) (log (KpartRun img1) w1)"
  have t: "telemetry lib srv s data w =
      (case on_frame (timer srv) ?wm of (r, tm, w') \<Rightarrow> (r, srv\<lparr>timer := tm\<rparr>, w'))"
    using assms(1) dec p pr k by (simp add: telemetry_def Let_def)
  have "emits (trace (snd (snd (telemetry lib srv s data w)))) = emits (trace ?wm)"
    using on_frame_emits [of "timer srv" ?wm] t
    by (cases "on_frame (timer srv) ?wm") auto
  also have "\<dots> = emits (trace w) @
      [\<lparr>e_event = ''steer'', e_data = [(''steering_angle'', ?a), (''throttle'', ?b)],
        e_room = None, e_skip_sid = PyTrue\<rparr>]"
    using w1 by (simp add: send_control_def sio_emit_def log_def emits_append)
  finally show ?thesis by blast
qed

text \<open>
  C2, as the code has it. \<^verbatim>\<open>send_control\<close> emits one \<^verbatim>\<open>steer\<close> event with no room
  and \<^verbatim>\<open>skip_sid=True\<close>, the same addressing as the \<^verbatim>\<open>manual\<close> event. After a frame
  that is processed to the end, the event emitted is delivered to every connection,
  whichever they are, and \<^verbatim>\<open>telemetry\<close> does not read the session id it is given.
\<close>

theorem steer_addressing:
  "send_control lib steering_angle throttle w =
     log (Emit \<lparr>e_event = ''steer'',
                e_data = [(''steering_angle'', py_str lib steering_angle),
                          (''throttle'', py_str lib throttle)],
                e_room = None, e_skip_sid = PyTrue\<rparr>) w
   \<and> (truthy data \<and> fst (telemetry lib srv s data w) = None \<longrightarrow>
        (\<exists>c. emits (trace (snd (snd (telemetry lib srv s data w)))) = emits (trace w) @ [c]
           \<and> e_event c = ''steer'' \<and> e_room c = None \<and> e_skip_sid c = PyTrue
           \<and> recipients conns c = conns))
   \<and> telemetry lib srv s' data w = telemetry lib srv s data w"
proof -
  have a: "send_control lib steering_angle throttle w =
     log (Emit \<lparr>e_event = ''steer'',
                e_data = [(''steering_angle'', py_str lib steering_angle),
                          (''throttle'', py_str lib throttle)],
                e_room = None, e_skip_sid = PyTrue\<rparr>) w"
    by (simp add: send_control_def sio_emit_def)
  have b: "\<exists>c. emits (trace (snd (snd (telemetry lib srv s data w)))) = emits (trace w) @ [c]
           \<and> e_event c = ''steer'' \<and> e_room c = None \<and> e_skip_sid c = PyTrue
           \<and> recipients conns c = conns"
    if "truthy data" and "fst (telemetry lib srv s data w) = None"
  proof -
    from telemetry_frame_emits [OF that] obtain x y where
      "emits (trace (snd (snd (telemetry lib srv s data w)))) =
         emits (trace w) @
           [\<lparr>e_event = ''steer'', e_data = [(''steering_angle'', x), (''throttle'', y)],
             e_room = None, e_skip_sid = PyTrue\<rparr>]"
      by blast
    moreover have "recipients conns
        \<lparr>e_event = ''steer'', e_data = [(''steering_angle'', x), (''throttle'', y)],
          e_room = None, e_skip_sid = PyTrue\<rparr> = conns"
      by (simp add: recipients_def)
    ultimately show ?thesis by force
  qed
  have c: "telemetry lib srv s' data w = telemetry lib srv s data w"
    by (simp add: telemetry_def)
  from a b c show ?thesis by blast
qed

text \<open>
  The frame \<open>frame0\<close> sent by \<^verbatim>\<open>A\<close> while \<^verbatim>\<open>B\<close> is connected too.
\<close>

theorem steer_addressing_witness:
  "truthy (Some frame0) \<and> fst (telemetry lib0 srv0 ''A'' (Some frame0) w0) = None
   \<and> (\<exists>c. emits (trace (snd (snd (telemetry lib0 srv0 ''A'' (Some frame0) w0)))) = [c]
         \<and> e_event c = ''steer'' \<and> recipients [''A'', ''B''] c = [''A'', ''B''])
   \<and> telemetry lib0 srv0 ''B'' (Some frame0) w0 = telemetry lib0 srv0 ''A'' (Some frame0) w0"
proof -
  have a: "truthy (Some frame0)" by (simp add: frame0_def)
  have b: "fst (telemetry lib0 srv0 ''A'' (Some frame0) w0) = None"
    by (simp add: telemetry_def decode_def getitem_def lib0_def frame0_def srv0_def
        preprocess_def on_frame_def Let_def)
  have e: "emits (trace w0) = []" by (simp add: w0_def)
  from steer_addressing [where data = "Some frame0" and lib = lib0 and srv = srv0
      and s = "''A''" and w = w0 and conns = "[''A'', ''B'']" and s' = "''B''"] a b e
  show ?thesis by auto
qed

text \<open>
  C2, as stated, asks that the \<^verbatim>\<open>steer\<close> event go to the originating connection
  only. With connections \<^verbatim>\<open>A\<close> and \<^verbatim>\<open>B\<close> and a frame from \<^verbatim>\<open>A\<close>, both receive it.
\<close>

theorem steer_reaches_every_connection:
  "recipients [''A'', ''B'']
     (last (emits (trace (snd (snd (telemetry lib0 srv0 ''A'' (Some frame0) w0))))))
   = [''A'', ''B'']"
  by (simp add: telemetry_def decode_def getitem_def lib0_def frame0_def srv0_def w0_def
      preprocess_def log_def send_control_def sio_emit_def throttle_control_def
      on_frame_def Let_def recipients_def)

text \<open>
  C3, as the code has it. For an empty or null payload \<^verbatim>\<open>telemetry\<close> emits exactly
  one \<^verbatim>\<open>manual\<close> event with the empty payload, no room and \<^verbatim>\<open>skip_sid=True\<close>, which the
  transport delivers to every connection, the sender included; it emits no
  \<^verbatim>\<open>steer\<close> event and calls neither collaborator.
\<close>

theorem telemetry_manual:
  assumes "\<not> truthy data"
  shows "\<exists>r tm w'.
           telemetry lib srv s data w = (r, srv\<lparr>timer := tm\<rparr>, w')
         \<and> emits (trace w') = emits (trace w) @
              [\<lparr>e_event = ''manual'', e_data = [], e_room = None, e_skip_sid = PyTrue\<rparr>]
         \<and> adapter_calls (trace w') = adapter_calls (trace w)
         \<and> recipients conns
              \<lparr>e_event = ''manual'', e_data = [], e_room = None, e_skip_sid = PyTrue\<rparr> = conns"
proof -
  let ?w1 = "sio_emit ''manual'' [] PyTrue w"
  obtain r tm w' where o: "on_frame (timer srv) ?w1 = (r, tm, w')"
    by (cases "on_frame (timer srv) ?w1") auto
  have t: "telemetry lib srv s data w = (r, srv\<lparr>timer := tm\<rparr>, w')"
    using assms o by (simp add: telemetry_def)
  have "emits (trace w') = emits (trace ?w1)"
    using on_frame_emits [of "timer srv" ?w1] o by simp
  then have e: "emits (trace w') = emits (trace w) @
      [\<lparr>e_event = ''manual'', e_data = [], e_room = None, e_skip_sid = PyTrue\<rparr>]"
    by (simp add: sio_emit_def log_def emits_append)
  have "adapter_calls (trace w') = adapter_calls (trace ?w1)"
    using on_frame_adapter_calls [of "timer srv" ?w1] o by simp
  then have a: "adapter_calls (trace w') = adapter_calls (trace w)"
    by (simp add: sio_emit_def log_def adapter_calls_append)
  have c: "recipients conns
      \<lparr>e_event = ''manual'', e_data = [], e_room = None, e_skip_sid = PyTrue\<rparr> = conns"
    by (simp add: recipients_def)
  from t e a c show ?thesis by blast
qed

text \<open>
  The empty dictionary sent by \<^verbatim>\<open>A\<close>.
\<close>

theorem telemetry_manual_witness:
  "\<not> truthy (Some []) \<and>
   telemetry lib0 srv0 ''A'' (Some []) w0 =
     (None, srv0\<lparr>timer := \<lparr>timer_t = 0, timer_iter = 1\<rparr>\<rparr>,
      w0\<lparr>trace := [Emit \<lparr>e_event = ''manual'', e_data = [], e_room = None, e_skip_sid = PyTrue\<rparr>]\<rparr>)"
proof -
  have h: "\<not> truthy (Some [])" by simp
  from telemetry_manual [OF h, of lib0 srv0 "''A''" w0 "[]"]
  obtain r tm w' where t: "telemetry lib0 srv0 ''A'' (Some []) w0 = (r, srv0\<lparr>timer := tm\<rparr>, w')"
    by blast
  have "telemetry lib0 srv0 ''A'' (Some []) w0 =
     (None, srv0\<lparr>timer := \<lparr>timer_t = 0, timer_iter = 1\<rparr>\<rparr>,
      w0\<lparr>trace := [Emit \<lparr>e_event = ''manual'', e_data = [], e_room = None, e_skip_sid = PyTrue\<rparr>]\<rparr>)"
    by (simp add: telemetry_def srv0_def w0_def log_def sio_emit_def on_frame_def Let_def)
  with t h show ?thesis by simp
qed

text \<open>
  C3, as stated, asks that the sender be excluded. With connections \<^verbatim>\<open>A\<close> and
  \<^verbatim>\<open>B\<close> and a null payload from \<^verbatim>\<open>A\<close>, the \<^verbatim>\<open>manual\<close> event reaches \<^verbatim>\<open>A\<close> too.
\<close>

theorem manual_reaches_sender:
  "recipients [''A'', ''B'']
     (last (emits (trace (snd (snd (telemetry lib0 srv0 ''A'' None w0))))))
   = [''A'', ''B'']"
  by (simp add: telemetry_def srv0_def w0_def log_def sio_emit_def
      on_frame_def Let_def recipients_def)

subsection \<open>The pipeline\<close>

text \<open>
  A payload whose four reads succeed decodes to the values read, and \<^verbatim>\<open>telemetry\<close>
  on a decoded frame is \<^verbatim>\<open>on_frame\<close> run after the calls and the emit.
\<close>

lemma decode_Inr:
  assumes "map_of d ''steering_angle'' = Some v1" and "py_float lib v1 = Inr last_steering"
    and "map_of d ''throttle'' = Some v2" and "py_float lib v2 = Inr last_throttle"
    and "map_of d ''speed'' = Some v3" and "py_float lib v3 = Inr speed"
    and "map_of d ''image'' = Some v4" and "decode_image lib v4 = Inr image_array"
  shows "decode lib d = Inr (last_steering, last_throttle, speed, image_array)"
  using assms by (simp add: decode_def getitem_def)

lemma telemetry_decoded:
  assumes "d \<noteq> []" and "decode lib d = Inr (last_steering, last_throttle, speed, image_array)"
    and "(case image_part srv of None \<Rightarrow> Inr image_array | Some f \<Rightarrow> f image_array) = Inr image_array1"
    and "kpart srv image_array1 = Inr (steering, nn_throttle)"
  shows "telemetry lib srv s (Some d) w =
     (case on_frame (timer srv)
        (w\<lparr>trace := trace w
             @ (case image_part srv of None \<Rightarrow> [] | Some f \<Rightarrow> [ImagePartRun image_array])
             @ [KpartRun image_array1,
                Emit \<lparr>e_event = ''steer'',
                      e_data =
                        [(''steering_angle'', float_str lib (steering * steering_scale srv)),
                         (''throttle'', float_str lib
                            (throttle_control srv last_steering last_throttle speed nn_throttle))],
                      e_room = None, e_skip_sid = PyTrue\<rparr>]\<rparr>)
      of (r, tm, w') \<Rightarrow> (r, srv\<lparr>timer := tm\<rparr>, w'))"
  using assms
  by (cases "image_part srv")
    (simp_all add: telemetry_def preprocess_def log_def send_control_def sio_emit_def Let_def)

text \<open>
  C5. For a well-formed payload whose image filter and model return, \<^verbatim>\<open>telemetry\<close>
  decodes, calls the image filter when there is one, calls the model on the result,
  and emits one \<^verbatim>\<open>steer\<close> event carrying the strings of \<open>steering * steering_scale\<close> and
  of \<^verbatim>\<open>throttle_control\<close> applied to the decoded state and the model's throttle; the
  trace has these effects in this order, and \<^verbatim>\<open>on_frame\<close> runs last.
\<close>

theorem telemetry_pipeline:
  assumes "map_of d ''steering_angle'' = Some v1" and "py_float lib v1 = Inr last_steering"
    and "map_of d ''throttle'' = Some v2" and "py_float lib v2 = Inr last_throttle"
    and "map_of d ''speed'' = Some v3" and "py_float lib v3 = Inr speed"
    and "map_of d ''image'' = Some v4" and "decode_image lib v4 = Inr image_array"
    and "(case image_part srv of None \<Rightarrow> Inr image_array | Some f \<Rightarrow> f image_array) = Inr image_array1"
    and "kpart srv image_array1 = Inr (steering, nn_throttle)"
  shows "\<exists>r tm w'.
      telemetry lib srv s (Some d) w = (r, srv\<lparr>timer := tm\<rparr>, w')
    \<and> on_frame (timer srv)
        (w\<lparr>trace := trace w
             @ (case image_part srv of None \<Rightarrow> [] | Some f \<Rightarrow> [ImagePartRun image_array])
             @ [KpartRun image_array1,
                Emit \<lparr>e_event = ''steer'',
                      e_data =
                        [(''steering_angle'', float_str lib (steering * steering_scale srv)),
                         (''throttle'', float_str lib
                            (throttle_control srv last_steering last_throttle speed nn_throttle))],
                      e_room = None, e_skip_sid = PyTrue\<rparr>]\<rparr>) = (r, tm, w')
    \<and> emits (trace w') = emits (trace w) @
         [\<lparr>e_event = ''steer'',
           e_data =
             [(''steering_angle'', float_str lib (steering * steering_scale srv)),
              (''throttle'', float_str lib
                 (throttle_control srv last_steering last_throttle speed nn_throttle))],
           e_room = None, e_skip_sid = PyTrue\<rparr>]"
proof -
  let ?c = "\<lparr>e_event = ''steer'',
      e_data =
        [(''steering_angle'', float_str lib (steering * steering_scale srv)),
         (''throttle'', float_str lib
            (throttle_control srv last_steering last_throttle speed nn_throttle))],
      e_room = None, e_skip_sid = PyTrue\<rparr>"
  let ?pre = "case image_part srv of None \<Rightarrow> [] | Some f \<Rightarrow> [ImagePartRun image_array]"
  let ?wm = "w\<lparr>trace := trace w @ ?pre @ [KpartRun image_array1, Emit ?c]\<rparr>"
  have ne: "d \<noteq> []"
    using assms(1) by auto
  have dec: "decode lib d = Inr (last_steering, last_throttle, speed, image_array)"
    using assms(1-8) by (rule decode_Inr)
  obtain r tm w' where o: "on_frame (timer srv) ?wm = (r, tm, w')"
    by (cases "on_frame (timer srv) ?wm") auto
  have t: "telemetry lib srv s (Some d) w = (r, srv\<lparr>timer := tm\<rparr>, w')"
    using telemetry_decoded [OF ne dec assms(9) assms(10), where s = s and w = w] o by simp
  have "emits (trace w') = emits (trace ?wm)"
    using on_frame_emits [of "timer srv" ?wm] o by simp
  also have "\<dots> = emits (trace w) @ [?c]"
    by (cases "image_part srv") (simp_all add: emits_append)
  finally have e: "emits (trace w') = emits (trace w) @ [?c]" .
  from t o e show ?thesis by blast
qed

text \<open>
  The frame \<open>frame0\<close>: the model answers (0.5, 0.9), the speed 1.5 is below the top
  speed 4, so the command is ("0.5", "0.3").
\<close>

theorem telemetry_pipeline_witness:
  "telemetry lib0 srv0 ''A'' (Some frame0) w0 =
     (None, srv0\<lparr>timer := \<lparr>timer_t = 0, timer_iter = 1\<rparr>\<rparr>,
      w0\<lparr>trace :=
           [KpartRun ''pixels'',
            Emit \<lparr>e_event = ''steer'',
                  e_data = [(''steering_angle'', ''0.5''), (''throttle'', ''0.3'')],
                  e_room = None, e_skip_sid = PyTrue\<rparr>]\<rparr>)"
proof -
  have 1: "map_of frame0 ''steering_angle'' = Some (JStr ''0'')" by (simp add: frame0_def)
  have 2: "py_float lib0 (JStr ''0'') = Inr 0" by (simp add: lib0_def)
  have 3: "map_of frame0 ''throttle'' = Some (JStr ''0'')" by (simp add: frame0_def)
  have 5: "map_of frame0 ''speed'' = Some (JStr ''1.5'')" by (simp add: frame0_def)
  have 6: "py_float lib0 (JStr ''1.5'') = Inr 1.5" by (simp add: lib0_def)
  have 7: "map_of frame0 ''image'' = Some (JStr ''UE5H'')" by (simp add: frame0_def)
  have 8: "decode_image lib0 (JStr ''UE5H'') = Inr ''pixels''" by (simp add: lib0_def)
  have 9: "(case image_part srv0 of None \<Rightarrow> Inr ''pixels'' | Some f \<Rightarrow> f ''pixels'') = Inr ''pixels''"
    by (simp add: srv0_def)
  have 10: "kpart srv0 ''pixels'' = Inr (0.5, 0.9)" by (simp add: srv0_def)
  from telemetry_pipeline [OF 1 2 3 2 5 6 7 8 9 10, where s = "''A''" and w = w0]
  show ?thesis
    by (auto simp: srv0_def w0_def lib0_def on_frame_def throttle_control_def)
qed

text \<open>
  C8. When no image filter is configured, preprocessing returns the decoded image
  unchanged and without any effect, and the model is called on exactly that image.
\<close>

theorem no_image_part_identity:
  assumes "image_part srv = None" and "d \<noteq> []"
    and "decode lib d = Inr (last_steering, last_throttle, speed, image_array)"
  shows "preprocess srv image_array w = (Inr image_array, w)
    \<and> adapter_calls (trace (snd (snd (telemetry lib srv s (Some d) w)))) =
        adapter_calls (trace w) @ [KpartRun image_array]"
proof -
  have p: "preprocess srv image_array w = (Inr image_array, w)"
    using assms(1) by (simp add: preprocess_def)
  have "adapter_calls (trace (snd (snd (telemetry lib srv s (Some d) w)))) =
        adapter_calls (trace w) @ [KpartRun image_array]"
  proof (cases "kpart srv image_array")
    case (Inl e)
    with assms p show ?thesis
      by (simp add: telemetry_def log_def adapter_calls_append)
  next
    case (Inr st)
    obtain x y where st: "st = (x, y)" by (cases st) auto
    let ?wm = "send_control lib (PyFloat (x * steering_scale srv))
       (PyFloat (throttle_control srv last_steering last_throttle speed y))
       (log (KpartRun image_array) w)"
    have t: "telemetry lib srv s (Some d) w =
        (case on_frame (timer srv) ?wm of (r, tm, w') \<Rightarrow> (r, srv\<lparr>timer := tm\<rparr>, w'))"
      using assms p Inr st by (simp add: telemetry_def Let_def)
    have "adapter_calls (trace (snd (snd (telemetry lib srv s (Some d) w)))) =
        adapter_calls (trace ?wm)"
      using on_frame_adapter_calls [of "timer srv" ?wm] t
      by (cases "on_frame (timer srv) ?wm") auto
    then show ?thesis
      by (simp add: send_control_def sio_emit_def log_def adapter_calls_append)
  qed
  with p show ?thesis by simp
qed

text \<open>
  The frame \<open>frame0\<close> on the server without an image filter.
\<close>

theorem no_image_part_identity_witness:
  "image_part srv0 = None \<and> frame0 \<noteq> []
   \<and> decode lib0 frame0 = Inr (0, 0, 1.5, ''pixels'')
   \<and> adapter_calls (trace (snd (snd (telemetry lib0 srv0 ''A'' (Some frame0) w0)))) =
       [KpartRun ''pixels'']"
proof -
  have a: "image_part srv0 = None" by (simp add: srv0_def)
  have b: "frame0 \<noteq> []" by (simp add: frame0_def)
  have c: "decode lib0 frame0 = Inr (0, 0, 1.5, ''pixels'')"
    by (simp add: decode_def getitem_def frame0_def lib0_def)
  from no_image_part_identity [OF a b c, where s = "''A''" and w = w0] a b c
  show ?thesis by (simp add: w0_def)
qed

subsection \<open>Connecting\<close>

text \<open>
  \<^verbatim>\<open>connect\<close> in closed form, and the trace only grows: each operation appends to it.
\<close>

lemma int_str_0: "int_str 0 = ''0''"
  by code_simp

lemma connect_eq:
  "connect lib srv s w =
     (srv\<lparr>timer := \<lparr>timer_t = clock w (ticks w), timer_iter = 0\<rparr>\<rparr>,
      w\<lparr>ticks := Suc (ticks w),
        trace := trace w @
          [PrintConnect s,
           Emit \<lparr>e_event = ''steer'',
                 e_data = [(''steering_angle'', ''0''), (''throttle'', ''0'')],
                 e_room = None, e_skip_sid = PyTrue\<rparr>]\<rparr>)"
  by (simp add: connect_def reset_def time_time_def log_def send_control_def sio_emit_def
      int_str_0 Let_def)

lemma telemetry_trace: "\<exists>ys. trace (snd (snd (telemetry lib srv s data w))) = trace w @ ys"
proof -
  have of: "\<exists>ys. trace (snd (snd (case on_frame tm w1 of (r, tm', w') \<Rightarrow> (r, srv\<lparr>timer := tm'\<rparr>, w'))))
      = trace w @ ys" if "\<exists>xs. trace w1 = trace w @ xs" for tm w1
  proof -
    from that obtain xs where xs: "trace w1 = trace w @ xs" by blast
    obtain ys where "trace (snd (snd (on_frame tm w1))) = trace w1 @ ys"
      using on_frame_trace by blast
    with xs show ?thesis
      by (cases "on_frame tm w1") auto
  qed
  show ?thesis
  proof (cases "truthy data")
    case False
    then show ?thesis
      using of [of "sio_emit ''manual'' [] PyTrue w" "timer srv"]
      by (simp add: telemetry_def sio_emit_def log_def)
  next
    case True
    show ?thesis
    proof (cases "decode lib (the data)")
      case (Inl e)
      with True show ?thesis by (simp add: telemetry_def)
    next
      case (Inr fr)
      obtain a b c img where fr: "fr = (a, b, c, img)" by (cases fr) auto
      obtain p w1 where p: "preprocess srv img w = (p, w1)" by (cases "preprocess srv img w") auto
      have w1: "\<exists>xs. trace w1 = trace w @ xs"
        using p by (auto simp: preprocess_def log_def split: option.splits)
      show ?thesis
      proof (cases p)
        case (Inl e)
        with True Inr fr p w1 show ?thesis by (simp add: telemetry_def)
      next
        case pr: (Inr img1)
        show ?thesis
        proof (cases "kpart srv img1")
          case (Inl e)
          with True Inr fr p pr w1 show ?thesis by (auto simp: telemetry_def log_def)
        next
          case kr: (Inr st)
          obtain x y where st: "st = (x, y)" by (cases st) auto
          let ?wm = "send_control lib (PyFloat (x * steering_scale srv))
             (PyFloat (throttle_control srv a b c y)) (log (KpartRun img1) w1)"
          have "\<exists>xs. trace ?wm = trace w @ xs"
            using w1 by (auto simp: send_control_def sio_emit_def log_def)
          from of [OF this, of "timer srv"] True Inr fr p pr kr st show ?thesis
            by (simp add: telemetry_def Let_def)
        qed
      qed
    qed
  qed
qed

lemma step_trace: "\<exists>ys. trace (snd (step lib x st)) = trace (snd st) @ ys"
proof (cases st)
  case (Pair srv w)
  show ?thesis
  proof (cases x)
    case (Connect s)
    with Pair show ?thesis by (simp add: connect_eq)
  next
    case (Telemetry s data)
    with Pair telemetry_trace [of lib srv s data w] show ?thesis by simp
  next
    case (ThrottleControl a b c d)
    with Pair show ?thesis by simp
  next
    case (SendControl a b)
    with Pair show ?thesis by (simp add: send_control_def sio_emit_def log_def)
  qed
qed

lemma run_trace: "\<exists>ys. trace (snd (run lib xs st)) = trace (snd st) @ ys"
proof (induction xs arbitrary: st)
  case Nil
  show ?case by simp
next
  case (Cons x xs)
  obtain ys where "trace (snd (run lib xs (step lib x st))) = trace (snd (step lib x st)) @ ys"
    using Cons.IH by blast
  moreover obtain zs where "trace (snd (step lib x st)) = trace (snd st) @ zs"
    using step_trace by blast
  ultimately show ?case by simp
qed

text \<open>
  C6. \<^verbatim>\<open>connect\<close> resets the timer (counter 0, start time a new clock reading) and
  emits exactly one \<^verbatim>\<open>steer\<close> event with payload ("0", "0"); whatever operations follow
  the connect, their effects come after this event in the trace.
\<close>

theorem connect_resets_and_sends_zero:
  "connect lib srv s w =
     (srv\<lparr>timer := \<lparr>timer_t = clock w (ticks w), timer_iter = 0\<rparr>\<rparr>,
      w\<lparr>ticks := Suc (ticks w),
        trace := trace w @
          [PrintConnect s,
           Emit \<lparr>e_event = ''steer'',
                 e_data = [(''steering_angle'', ''0''), (''throttle'', ''0'')],
                 e_room = None, e_skip_sid = PyTrue\<rparr>]\<rparr>)
   \<and> emits (trace (snd (connect lib srv s w))) = emits (trace w) @
        [\<lparr>e_event = ''steer'',
          e_data = [(''steering_angle'', ''0''), (''throttle'', ''0'')],
          e_room = None, e_skip_sid = PyTrue\<rparr>]
   \<and> (\<exists>later. trace (snd (run lib (Connect s # ops) (srv, w))) =
         trace w @
          [PrintConnect s,
           Emit \<lparr>e_event = ''steer'',
                 e_data = [(''steering_angle'', ''0''), (''throttle'', ''0'')],
                 e_room = None, e_skip_sid = PyTrue\<rparr>] @ later)"
proof -
  obtain ys where "trace (snd (run lib ops (connect lib srv s w))) =
      trace (snd (connect lib srv s w)) @ ys"
    using run_trace by blast
  then show ?thesis
    by (simp add: connect_eq emits_append)
qed

subsection \<open>The configuration\<close>

lemma step_config:
  "top_speed (fst (step lib x st)) = top_speed (fst st)
   \<and> steering_scale (fst (step lib x st)) = steering_scale (fst st)"
proof (cases st)
  case (Pair srv w)
  have t: "top_speed (fst (snd (telemetry lib srv s data w))) = top_speed srv
      \<and> steering_scale (fst (snd (telemetry lib srv s data w))) = steering_scale srv" for s data
    by (simp add: telemetry_def Let_def split: sum.splits prod.splits)
  show ?thesis
  proof (cases x)
    case (Connect s)
    with Pair show ?thesis by (simp add: connect_eq)
  next
    case (Telemetry s data)
    with Pair t [of s data] show ?thesis by simp
  next
    case (ThrottleControl a b c d)
    with Pair show ?thesis by simp
  next
    case (SendControl a b)
    with Pair show ?thesis by simp
  qed
qed

lemma init_config:
  "top_speed (fst (init kp ts ip sc w)) = ts \<and> steering_scale (fst (init kp ts ip sc w)) = sc"
  by (simp add: init_def time_time_def)

text \<open>
  C9. After \<^verbatim>\<open>__init__\<close> and any sequence of \<^verbatim>\<open>connect\<close>, \<^verbatim>\<open>telemetry\<close>,
  \<^verbatim>\<open>throttle_control\<close> and \<^verbatim>\<open>send_control\<close>, \<open>top_speed\<close> and \<open>steering_scale\<close> are the
  values given at construction.
\<close>

theorem config_never_mutated:
  "top_speed (fst (run lib ops (init kp ts ip sc w))) = ts
   \<and> steering_scale (fst (run lib ops (init kp ts ip sc w))) = sc
   \<and> top_speed (fst (run lib ops (srv, w))) = top_speed srv
   \<and> steering_scale (fst (run lib ops (srv, w))) = steering_scale srv"
proof -
  have "top_speed (fst (run lib ops st)) = top_speed (fst st)
      \<and> steering_scale (fst (run lib ops st)) = steering_scale (fst st)" for st
  proof (induction ops arbitrary: st)
    case Nil
    show ?case by simp
  next
    case (Cons x xs)
    from Cons.IH [of "step lib x st"] step_config [of lib x st] show ?case by simp
  qed
  from this [of "init kp ts ip sc w"] this [of "(srv, w)"] init_config [of kp ts ip sc w]
  show ?thesis by simp
qed

subsection \<open>The frame-rate window\<close>

lemma on_frames_below:
  "timer_iter tm + int n < 100 \<Longrightarrow>
   on_frames n tm w = (None, tm\<lparr>timer_iter := timer_iter tm + int n\<rparr>, w)"
proof (induction n arbitrary: tm)
  case 0
  show ?case by simp
next
  case (Suc n)
  have s: "on_frame tm w = (None, tm\<lparr>timer_iter := timer_iter tm + 1\<rparr>, w)"
    using Suc.prems by (simp add: on_frame_def)
  have "on_frames n (tm\<lparr>timer_iter := timer_iter tm + 1\<rparr>) w =
      (None, tm\<lparr>timer_iter := timer_iter tm + 1 + int n\<rparr>, w)"
    using Suc.IH [of "tm\<lparr>timer_iter := timer_iter tm + 1\<rparr>"] Suc.prems by simp
  with s show ?case by (simp add: add.assoc add.commute)
qed

lemma on_frames_snoc:
  "on_frames n tm w = (None, tm1, w1) \<Longrightarrow> on_frames (Suc n) tm w = on_frame tm1 w1"
proof (induction n arbitrary: tm w)
  case 0
  then show ?case by (auto split: prod.splits option.splits)
next
  case (Suc n)
  obtain r tm2 w2 where o: "on_frame tm w = (r, tm2, w2)"
    by (cases "on_frame tm w") auto
  show ?case
  proof (cases r)
    case None
    with o Suc.prems have "on_frames n tm2 w2 = (None, tm1, w1)" by simp
    from Suc.IH [OF this] o None show ?thesis by simp
  next
    case (Some e)
    with o Suc.prems show ?thesis by simp
  qed
qed

lemma on_frames_100:
  assumes "timer_iter tm = 0"
  shows "on_frames 100 tm w = on_frame (tm\<lparr>timer_iter := 99\<rparr>) w"
proof -
  have "on_frames 99 tm w = (None, tm\<lparr>timer_iter := 99\<rparr>, w)"
    using on_frames_below [of tm 99 w] assms by simp
  from on_frames_snoc [OF this] show ?thesis by simp
qed

text \<open>
  The window when the clock moves. \<^verbatim>\<open>reset\<close> sets the counter to 0 and the start time to
  a clock reading. From a timer whose counter is 0 (after a reset or after a report), fewer
  than 100 calls of \<^verbatim>\<open>on_frame\<close> only count: they print nothing and do not read the
  clock. The 100th call reads the clock and, when the reading differs from the stored
  start time, prints exactly one rate, 100 divided by the reading minus the start time,
  sets the counter to 0 and the start time to a further clock reading.
\<close>

theorem fps_report_after_100_frames:
  "timer_iter (fst (reset tm0 wa)) = 0 \<and> timer_t (fst (reset tm0 wa)) = clock wa (ticks wa)
   \<and> (timer_iter tm = 0 \<longrightarrow>
        (\<forall>n<100. on_frames n tm w = (None, tm\<lparr>timer_iter := int n\<rparr>, w))
        \<and> (clock w (ticks w) \<noteq> timer_t tm \<longrightarrow>
             on_frames 100 tm w =
               (None, \<lparr>timer_t = clock w (Suc (ticks w)), timer_iter = 0\<rparr>,
                w\<lparr>ticks := ticks w + 2,
                  trace := trace w @ [PrintFps (100 / (clock w (ticks w) - timer_t tm))]\<rparr>)))"
proof -
  have a: "timer_iter (fst (reset tm0 wa)) = 0" "timer_t (fst (reset tm0 wa)) = clock wa (ticks wa)"
    by (simp_all add: reset_def time_time_def)
  have c: "on_frames n tm w = (None, tm\<lparr>timer_iter := int n\<rparr>, w)"
    if "timer_iter tm = 0" and "n < 100" for n
    using on_frames_below [of tm n w] that by simp
  have d: "on_frames 100 tm w =
           (None, \<lparr>timer_t = clock w (Suc (ticks w)), timer_iter = 0\<rparr>,
            w\<lparr>ticks := ticks w + 2,
              trace := trace w @ [PrintFps (100 / (clock w (ticks w) - timer_t tm))]\<rparr>)"
    if b: "timer_iter tm = 0" and "clock w (ticks w) \<noteq> timer_t tm"
    using on_frames_100 [OF b, of w] that
    by (simp add: on_frame_def time_time_def log_def Let_def)
  from a c d show ?thesis by blast
qed

text \<open>
  A clock that advances by one second at each reading: the rate printed is 100.
\<close>

theorem fps_report_after_100_frames_witness:
  "reset (timer srv0) w0 = (\<lparr>timer_t = 0, timer_iter = 0\<rparr>, w0\<lparr>ticks := 1\<rparr>)
   \<and> on_frames 99 \<lparr>timer_t = 0, timer_iter = 0\<rparr> (w0\<lparr>ticks := 1\<rparr>) =
       (None, \<lparr>timer_t = 0, timer_iter = 99\<rparr>, w0\<lparr>ticks := 1\<rparr>)
   \<and> on_frames 100 \<lparr>timer_t = 0, timer_iter = 0\<rparr> (w0\<lparr>ticks := 1\<rparr>) =
       (None, \<lparr>timer_t = 2, timer_iter = 0\<rparr>, w0\<lparr>ticks := 3, trace := [PrintFps 100]\<rparr>)"
proof -
  have r: "reset (timer srv0) w0 = (\<lparr>timer_t = 0, timer_iter = 0\<rparr>, w0\<lparr>ticks := 1\<rparr>)"
    by (simp add: reset_def time_time_def srv0_def w0_def)
  have i: "timer_iter \<lparr>timer_t = 0, timer_iter = 0\<rparr> = 0" by simp
  have n: "(99::nat) < 100" by simp
  have c: "clock (w0\<lparr>ticks := 1\<rparr>) (ticks (w0\<lparr>ticks := 1\<rparr>)) \<noteq> timer_t \<lparr>timer_t = 0, timer_iter = 0\<rparr>"
    by (simp add: w0_def)
  from fps_report_after_100_frames [of "timer srv0" w0 "\<lparr>timer_t = 0, timer_iter = 0\<rparr>" "w0\<lparr>ticks := 1\<rparr>"]
    i n c r
  show ?thesis
    by (simp add: w0_def)
qed

text \<open>
  Once the counter is at 100 or above, \<^verbatim>\<open>on_frame\<close> only counts: the test
  \<^verbatim>\<open>self.iter == 100\<close> never holds again.
\<close>

lemma on_frames_stuck:
  "100 \<le> timer_iter tm \<Longrightarrow>
   on_frames n tm w = (None, tm\<lparr>timer_iter := timer_iter tm + int n\<rparr>, w)"
proof (induction n arbitrary: tm)
  case 0
  show ?case by simp
next
  case (Suc n)
  have s: "on_frame tm w = (None, tm\<lparr>timer_iter := timer_iter tm + 1\<rparr>, w)"
    using Suc.prems by (simp add: on_frame_def)
  have "on_frames n (tm\<lparr>timer_iter := timer_iter tm + 1\<rparr>) w =
      (None, tm\<lparr>timer_iter := timer_iter tm + 1 + int n\<rparr>, w)"
    using Suc.IH [of "tm\<lparr>timer_iter := timer_iter tm + 1\<rparr>"] Suc.prems by simp
  with s show ?case by (simp add: add.assoc add.commute)
qed

text \<open>
  C7 asks that 100 calls of \<^verbatim>\<open>on_frame\<close> from a reset timer give exactly one report and
  leave the counter at 0. The division \<^verbatim>\<open>100.0 / (e - self.t)\<close> is not guarded: when the
  clock reads the same at the 100th call as at the reset, the call raises
  \<^verbatim>\<open>ZeroDivisionError\<close>, nothing is printed, the counter stays at 100, and the 250 calls
  that follow print nothing either.
\<close>

theorem fps_still_clock_raises:
  "on_frames 100 (fst (reset (timer srv0) w_still)) (snd (reset (timer srv0) w_still)) =
     (Some ZeroDivisionError, \<lparr>timer_t = 7, timer_iter = 100\<rparr>, w_still\<lparr>ticks := 2\<rparr>)
   \<and> on_frames 250 \<lparr>timer_t = 7, timer_iter = 100\<rparr> (w_still\<lparr>ticks := 2\<rparr>) =
     (None, \<lparr>timer_t = 7, timer_iter = 350\<rparr>, w_still\<lparr>ticks := 2\<rparr>)"
proof -
  have r: "reset (timer srv0) w_still = (\<lparr>timer_t = 7, timer_iter = 0\<rparr>, w_still\<lparr>ticks := 1\<rparr>)"
    by (simp add: reset_def time_time_def srv0_def w_still_def)
  have "on_frames 100 \<lparr>timer_t = 7, timer_iter = 0\<rparr> (w_still\<lparr>ticks := 1\<rparr>) =
      on_frame \<lparr>timer_t = 7, timer_iter = 99\<rparr> (w_still\<lparr>ticks := 1\<rparr>)"
    using on_frames_100 [of "\<lparr>timer_t = 7, timer_iter = 0\<rparr>" "w_still\<lparr>ticks := 1\<rparr>"] by simp
  then have a: "on_frames 100 (fst (reset (timer srv0) w_still)) (snd (reset (timer srv0) w_still)) =
     (Some ZeroDivisionError, \<lparr>timer_t = 7, timer_iter = 100\<rparr>, w_still\<lparr>ticks := 2\<rparr>)"
    using r by (simp add: on_frame_def time_time_def w_still_def)
  have b: "on_frames 250 \<lparr>timer_t = 7, timer_iter = 100\<rparr> (w_still\<lparr>ticks := 2\<rparr>) =
     (None, \<lparr>timer_t = 7, timer_iter = 350\<rparr>, w_still\<lparr>ticks := 2\<rparr>)"
    using on_frames_stuck [of "\<lparr>timer_t = 7, timer_iter = 100\<rparr>" 250 "w_still\<lparr>ticks := 2\<rparr>"]
    by simp
  from a b show ?thesis by simp
qed

text \<open>
  A \<^verbatim>\<open>telemetry\<close> call that returns normally has ended with \<^verbatim>\<open>on_frame\<close>.
\<close>

lemma telemetry_None_cases:
  assumes "fst (telemetry lib srv s data w) = None"
  shows "\<exists>wm. telemetry lib srv s data w =
           (case on_frame (timer srv) wm of (r, tm, w') \<Rightarrow> (r, srv\<lparr>timer := tm\<rparr>, w'))
         \<and> clock wm = clock w \<and> ticks wm = ticks w"
proof (cases "truthy data")
  case False
  then have "telemetry lib srv s data w =
      (case on_frame (timer srv) (sio_emit ''manual'' [] PyTrue w) of
         (r, tm, w') \<Rightarrow> (r, srv\<lparr>timer := tm\<rparr>, w'))"
    by (simp add: telemetry_def)
  moreover have "clock (sio_emit ''manual'' [] PyTrue w) = clock w"
      "ticks (sio_emit ''manual'' [] PyTrue w) = ticks w"
    by (simp_all add: sio_emit_def log_def)
  ultimately show ?thesis by blast
next
  case True
  from assms True obtain a b c img where dec: "decode lib (the data) = Inr (a, b, c, img)"
    by (cases "decode lib (the data)") (auto simp: telemetry_def)
  obtain p w1 where p: "preprocess srv img w = (p, w1)"
    by (cases "preprocess srv img w") auto
  have w1: "clock w1 = clock w \<and> ticks w1 = ticks w"
    using p by (auto simp: preprocess_def log_def split: option.splits)
  from assms True dec p obtain img1 where pr: "p = Inr img1"
    by (cases p) (auto simp: telemetry_def)
  from assms True dec p pr obtain x y where k: "kpart srv img1 = Inr (x, y)"
    by (cases "kpart srv img1") (auto simp: telemetry_def Let_def)
  let ?wm = "send_control lib (PyFloat (x * steering_scale srv))
     (PyFloat (throttle_control srv a b c y)) (log (KpartRun img1) w1)"
  have "telemetry lib srv s data w =
      (case on_frame (timer srv) ?wm of (r, tm, w') \<Rightarrow> (r, srv\<lparr>timer := tm\<rparr>, w'))"
    using True dec p pr k by (simp add: telemetry_def Let_def)
  moreover have "clock ?wm = clock w" "ticks ?wm = ticks w"
    using w1 by (simp_all add: send_control_def sio_emit_def log_def)
  ultimately show ?thesis by blast
qed

text \<open>
  Manual frames: fewer than 100 of them only count, and the 100th ends with the timer's
  100th \<^verbatim>\<open>on_frame\<close> call. A call of \<^verbatim>\<open>on_frame\<close> always changes the counter.
\<close>

lemma run_append: "run lib (xs @ ys) st = run lib ys (run lib xs st)"
  by (induction xs arbitrary: st) simp_all

lemma manual_frames_below:
  "timer_iter (timer srv) + int n < 100 \<Longrightarrow>
   run lib (replicate n (Telemetry s None)) (srv, w) =
     (srv\<lparr>timer := (timer srv)\<lparr>timer_iter := timer_iter (timer srv) + int n\<rparr>\<rparr>,
      w\<lparr>trace := trace w @ replicate n
          (Emit \<lparr>e_event = ''manual'', e_data = [], e_room = None, e_skip_sid = PyTrue\<rparr>)\<rparr>)"
proof (induction n arbitrary: srv w)
  case 0
  show ?case by simp
next
  case (Suc n)
  let ?m = "Emit \<lparr>e_event = ''manual'', e_data = [], e_room = None, e_skip_sid = PyTrue\<rparr> :: 'a effect"
  let ?srv1 = "srv\<lparr>timer := (timer srv)\<lparr>timer_iter := timer_iter (timer srv) + 1\<rparr>\<rparr>"
  let ?w1 = "w\<lparr>trace := trace w @ [?m]\<rparr>"
  have s: "step lib (Telemetry s None) (srv, w) = (?srv1, ?w1)"
    using Suc.prems by (simp add: telemetry_def sio_emit_def log_def on_frame_def)
  have "run lib (replicate n (Telemetry s None)) (?srv1, ?w1) =
     (?srv1\<lparr>timer := (timer ?srv1)\<lparr>timer_iter := timer_iter (timer ?srv1) + int n\<rparr>\<rparr>,
      ?w1\<lparr>trace := trace ?w1 @ replicate n ?m\<rparr>)"
    using Suc.prems by (intro Suc.IH) simp
  with s show ?case
    by (simp add: add.assoc add.commute replicate_append_same)
qed

lemma manual_frames_hundredth:
  assumes "timer_iter (timer srv) = 0"
  shows "run lib (replicate 100 (Telemetry s None)) (srv, w) =
     (case on_frame ((timer srv)\<lparr>timer_iter := 99\<rparr>)
        (w\<lparr>trace := trace w @ replicate 100
            (Emit \<lparr>e_event = ''manual'', e_data = [], e_room = None, e_skip_sid = PyTrue\<rparr>)\<rparr>)
      of (r, tm, w') \<Rightarrow> (srv\<lparr>timer := tm\<rparr>, w'))"
proof -
  let ?m = "Emit \<lparr>e_event = ''manual'', e_data = [], e_room = None, e_skip_sid = PyTrue\<rparr> :: 'a effect"
  let ?srv1 = "srv\<lparr>timer := (timer srv)\<lparr>timer_iter := 99\<rparr>\<rparr>"
  let ?w1 = "w\<lparr>trace := trace w @ replicate 99 ?m\<rparr>"
  have "replicate (Suc 99) (Telemetry s None) = replicate 99 (Telemetry s None) @ [Telemetry s None]"
    by (simp only: replicate_Suc replicate_append_same)
  then have "replicate 100 (Telemetry s None) = replicate 99 (Telemetry s None) @ [Telemetry s None]"
    by simp
  then have "run lib (replicate 100 (Telemetry s None)) (srv, w) =
      step lib (Telemetry s None) (run lib (replicate 99 (Telemetry s None)) (srv, w))"
    by (simp only: run_append) simp
  also have "run lib (replicate 99 (Telemetry s None)) (srv, w) = (?srv1, ?w1)"
    using manual_frames_below [of srv 99 lib s w] assms by simp
  finally have a: "run lib (replicate 100 (Telemetry s None)) (srv, w) =
      step lib (Telemetry s None) (?srv1, ?w1)" .
  have "replicate 99 ?m @ [?m] = replicate (Suc 99) ?m"
    by (simp only: replicate_Suc replicate_append_same)
  then have m: "replicate 99 ?m @ [?m] = replicate 100 ?m" by simp
  have "step lib (Telemetry s None) (?srv1, ?w1) =
      (case on_frame ((timer srv)\<lparr>timer_iter := 99\<rparr>) (w\<lparr>trace := trace w @ replicate 99 ?m @ [?m]\<rparr>)
       of (r, tm, w') \<Rightarrow> (srv\<lparr>timer := tm\<rparr>, w'))"
    by (simp add: telemetry_def sio_emit_def log_def split: prod.splits)
  with a m show ?thesis by simp
qed

lemma on_frame_changes_counter: "timer_iter (fst (snd (on_frame tm w))) \<noteq> timer_iter tm"
  using on_frame_cases [of tm w] by auto

text \<open>
  C10, as the code has it. A \<^verbatim>\<open>telemetry\<close> call with an empty or null payload, and a
  call whose payload decodes and whose image filter and model return, end with exactly
  one \<^verbatim>\<open>on_frame\<close> call, which changes the counter: one higher, or back at 0 when the
  100th frame reports. A call that raises before that (a payload that does not decode, an
  image filter or a model that raises) returns the server object unchanged: it does not
  reach \<^verbatim>\<open>on_frame\<close>. Manual frames count like the others: from a counter at 0, fewer than
  100 of them only advance the counter, and the 100th makes the timer's 100th
  \<^verbatim>\<open>on_frame\<close> call.
\<close>

theorem telemetry_counts_frame:
  "(\<not> truthy data \<longrightarrow>
      telemetry lib srv s data w =
        (case on_frame (timer srv) (sio_emit ''manual'' [] PyTrue w) of
           (r, tm, w') \<Rightarrow> (r, srv\<lparr>timer := tm\<rparr>, w')))
   \<and> (truthy data \<and> decode lib (the data) = Inr (ls, lt, sp, img)
        \<and> preprocess srv img w = (Inr img1, w1) \<and> kpart srv img1 = Inr (x, y) \<longrightarrow>
      telemetry lib srv s data w =
        (case on_frame (timer srv)
           (send_control lib (PyFloat (x * steering_scale srv))
              (PyFloat (throttle_control srv ls lt sp y)) (log (KpartRun img1) w1)) of
           (r, tm, w') \<Rightarrow> (r, srv\<lparr>timer := tm\<rparr>, w')))
   \<and> (truthy data \<and> decode lib (the data) = Inl e \<longrightarrow>
      telemetry lib srv s data w = (Some e, srv, w))
   \<and> (truthy data \<and> decode lib (the data) = Inr (ls, lt, sp, img)
        \<and> preprocess srv img w = (Inl e, w1) \<longrightarrow>
      telemetry lib srv s data w = (Some e, srv, w1))
   \<and> (truthy data \<and> decode lib (the data) = Inr (ls, lt, sp, img)
        \<and> preprocess srv img w = (Inr img1, w1) \<and> kpart srv img1 = Inl e \<longrightarrow>
      telemetry lib srv s data w = (Some e, srv, log (KpartRun img1) w1))
   \<and> timer_iter (fst (snd (on_frame tm wm))) =
       (if timer_iter tm + 1 = 100 \<and> fst (on_frame tm wm) = None then 0 else timer_iter tm + 1)
   \<and> timer_iter (fst (snd (on_frame tm wm))) \<noteq> timer_iter tm
   \<and> (fst (telemetry lib srv s data w) = None \<longrightarrow>
        (\<exists>wm. telemetry lib srv s data w =
                (case on_frame (timer srv) wm of (r, tm, w') \<Rightarrow> (r, srv\<lparr>timer := tm\<rparr>, w'))
              \<and> clock wm = clock w \<and> ticks wm = ticks w)
        \<and> timer_iter (timer (fst (snd (telemetry lib srv s data w)))) =
            (if timer_iter (timer srv) + 1 = 100 then 0 else timer_iter (timer srv) + 1))
   \<and> (timer_iter (timer srv) + int n < 100 \<longrightarrow>
        run lib (replicate n (Telemetry s None)) (srv, w) =
          (srv\<lparr>timer := (timer srv)\<lparr>timer_iter := timer_iter (timer srv) + int n\<rparr>\<rparr>,
           w\<lparr>trace := trace w @ replicate n
               (Emit \<lparr>e_event = ''manual'', e_data = [], e_room = None, e_skip_sid = PyTrue\<rparr>)\<rparr>))
   \<and> (timer_iter (timer srv) = 0 \<longrightarrow>
        run lib (replicate 100 (Telemetry s None)) (srv, w) =
          (case on_frame ((timer srv)\<lparr>timer_iter := 99\<rparr>)
             (w\<lparr>trace := trace w @ replicate 100
                 (Emit \<lparr>e_event = ''manual'', e_data = [], e_room = None, e_skip_sid = PyTrue\<rparr>)\<rparr>)
           of (r, tm, w') \<Rightarrow> (srv\<lparr>timer := tm\<rparr>, w')))"
proof -
  have a: "telemetry lib srv s data w =
        (case on_frame (timer srv) (sio_emit ''manual'' [] PyTrue w) of
           (r, tm, w') \<Rightarrow> (r, srv\<lparr>timer := tm\<rparr>, w'))" if "\<not> truthy data"
    using that by (simp add: telemetry_def)
  have p: "telemetry lib srv s data w =
        (case on_frame (timer srv)
           (send_control lib (PyFloat (x * steering_scale srv))
              (PyFloat (throttle_control srv ls lt sp y)) (log (KpartRun img1) w1)) of
           (r, tm, w') \<Rightarrow> (r, srv\<lparr>timer := tm\<rparr>, w'))"
    if "truthy data" and "decode lib (the data) = Inr (ls, lt, sp, img)"
      and "preprocess srv img w = (Inr img1, w1)" and "kpart srv img1 = Inr (x, y)"
    using that by (simp add: telemetry_def Let_def)
  have r1: "telemetry lib srv s data w = (Some e, srv, w)"
    if "truthy data" and "decode lib (the data) = Inl e"
    using that by (simp add: telemetry_def)
  have r2: "telemetry lib srv s data w = (Some e, srv, w1)"
    if "truthy data" and "decode lib (the data) = Inr (ls, lt, sp, img)"
      and "preprocess srv img w = (Inl e, w1)"
    using that by (simp add: telemetry_def)
  have r3: "telemetry lib srv s data w = (Some e, srv, log (KpartRun img1) w1)"
    if "truthy data" and "decode lib (the data) = Inr (ls, lt, sp, img)"
      and "preprocess srv img w = (Inr img1, w1)" and "kpart srv img1 = Inl e"
    using that by (simp add: telemetry_def Let_def)
  have b: "timer_iter (timer (fst (snd (telemetry lib srv s data w)))) =
            (if timer_iter (timer srv) + 1 = 100 then 0 else timer_iter (timer srv) + 1)"
    if n: "fst (telemetry lib srv s data w) = None"
  proof -
    from telemetry_None_cases [OF n] obtain wm where
      t: "telemetry lib srv s data w =
           (case on_frame (timer srv) wm of (r, tm, w') \<Rightarrow> (r, srv\<lparr>timer := tm\<rparr>, w'))"
      by blast
    obtain r tm w' where o: "on_frame (timer srv) wm = (r, tm, w')"
      by (cases "on_frame (timer srv) wm") auto
    with t n have r: "r = None" by simp
    from on_frame_iter [of "timer srv" wm] o r t show ?thesis by simp
  qed
  note c = manual_frames_below [of srv n lib s w]
  note d = manual_frames_hundredth [of srv lib s w]
  from a p r1 r2 r3 on_frame_iter [of tm wm] on_frame_changes_counter [of tm wm] b c d
    telemetry_None_cases [of lib srv s data w]
  show ?thesis by blast
qed

text \<open>
  On the fresh server: a null payload and the frame \<open>frame0\<close> bring the counter to 1; the
  frame without \<^verbatim>\<open>speed\<close> and a model that raises leave the server as it was; 100 manual
  frames print the rate 100 one second after the start time, and raise at the 100th
  when the clock still reads the start time.
\<close>

theorem telemetry_counts_frame_witness:
  "telemetry lib0 srv0 ''A'' None w0 =
     (None, srv0\<lparr>timer := \<lparr>timer_t = 0, timer_iter = 1\<rparr>\<rparr>,
      w0\<lparr>trace := [Emit \<lparr>e_event = ''manual'', e_data = [], e_room = None, e_skip_sid = PyTrue\<rparr>]\<rparr>)
   \<and> timer_iter (timer (fst (snd (telemetry lib0 srv0 ''A'' (Some frame0) w0)))) = 1
   \<and> telemetry lib0 srv0 ''A'' (Some frame_no_speed) w0 = (Some (KeyError ''speed''), srv0, w0)
   \<and> telemetry lib0 srv_raise ''A'' (Some frame0) w0 =
       (Some RunError, srv_raise, w0\<lparr>trace := [KpartRun ''pixels'']\<rparr>)
   \<and> run lib0 (replicate 100 (Telemetry ''A'' None)) (srv0, w0\<lparr>ticks := 1\<rparr>) =
       (srv0\<lparr>timer := \<lparr>timer_t = 2, timer_iter = 0\<rparr>\<rparr>,
        w0\<lparr>ticks := 3,
           trace := replicate 100
               (Emit \<lparr>e_event = ''manual'', e_data = [], e_room = None, e_skip_sid = PyTrue\<rparr>)
             @ [PrintFps 100]\<rparr>)
   \<and> run lib0 (replicate 100 (Telemetry ''A'' None)) (srv0, w0) =
       (srv0\<lparr>timer := \<lparr>timer_t = 0, timer_iter = 100\<rparr>\<rparr>,
        w0\<lparr>ticks := 1,
           trace := replicate 100
               (Emit \<lparr>e_event = ''manual'', e_data = [], e_room = None, e_skip_sid = PyTrue\<rparr>)\<rparr>)"
proof -
  have i: "timer_iter (timer srv0) = 0" by (simp add: srv0_def)
  have tr: "truthy (Some frame0)" "truthy (Some frame_no_speed)"
    by (simp_all add: frame0_def frame_no_speed_def)
  have d0: "decode lib0 frame0 = Inr (0, 0, 1.5, ''pixels'')"
    by (simp add: decode_def getitem_def frame0_def lib0_def)
  have d1: "decode lib0 frame_no_speed = Inl (KeyError ''speed'')"
    by (simp add: decode_def getitem_def frame_no_speed_def lib0_def)
  have p0: "preprocess srv0 ''pixels'' w0 = (Inr ''pixels'', w0)"
    and p1: "preprocess srv_raise ''pixels'' w0 = (Inr ''pixels'', w0)"
    by (simp_all add: preprocess_def srv0_def srv_raise_def)
  have k0: "kpart srv0 ''pixels'' = Inr (0.5, 0.9)" and k1: "kpart srv_raise ''pixels'' = Inl RunError"
    by (simp_all add: srv0_def srv_raise_def)
  have "\<not> truthy None \<longrightarrow> telemetry lib0 srv0 ''A'' None w0 =
      (case on_frame (timer srv0) (sio_emit ''manual'' [] PyTrue w0) of
         (r, tm, w') \<Rightarrow> (r, srv0\<lparr>timer := tm\<rparr>, w'))"
    by (rule telemetry_counts_frame [where data = None and lib = lib0 and srv = srv0
          and s = "''A''" and w = w0, THEN conjunct1])
  then have 1: "telemetry lib0 srv0 ''A'' None w0 =
     (None, srv0\<lparr>timer := \<lparr>timer_t = 0, timer_iter = 1\<rparr>\<rparr>,
      w0\<lparr>trace := [Emit \<lparr>e_event = ''manual'', e_data = [], e_room = None, e_skip_sid = PyTrue\<rparr>]\<rparr>)"
    by (simp add: srv0_def w0_def sio_emit_def log_def on_frame_def)
  have "truthy (Some frame0) \<and> decode lib0 (the (Some frame0)) = Inr (0, 0, 1.5, ''pixels'')
        \<and> preprocess srv0 ''pixels'' w0 = (Inr ''pixels'', w0)
        \<and> kpart srv0 ''pixels'' = Inr (0.5, 0.9) \<longrightarrow>
      telemetry lib0 srv0 ''A'' (Some frame0) w0 =
      (case on_frame (timer srv0)
           (send_control lib0 (PyFloat (0.5 * steering_scale srv0))
              (PyFloat (throttle_control srv0 0 0 1.5 0.9)) (log (KpartRun ''pixels'') w0)) of
           (r, tm, w') \<Rightarrow> (r, srv0\<lparr>timer := tm\<rparr>, w'))"
    by (rule telemetry_counts_frame [where data = "Some frame0" and lib = lib0 and srv = srv0
          and s = "''A''" and w = w0, THEN conjunct2, THEN conjunct1])
  with tr d0 p0 k0 have "telemetry lib0 srv0 ''A'' (Some frame0) w0 =
      (case on_frame (timer srv0)
           (send_control lib0 (PyFloat (0.5 * steering_scale srv0))
              (PyFloat (throttle_control srv0 0 0 1.5 0.9)) (log (KpartRun ''pixels'') w0)) of
           (r, tm, w') \<Rightarrow> (r, srv0\<lparr>timer := tm\<rparr>, w'))"
    by simp
  then have 2: "timer_iter (timer (fst (snd (telemetry lib0 srv0 ''A'' (Some frame0) w0)))) = 1"
    by (simp add: srv0_def on_frame_def)
  have "truthy (Some frame_no_speed)
        \<and> decode lib0 (the (Some frame_no_speed)) = Inl (KeyError ''speed'') \<longrightarrow>
      telemetry lib0 srv0 ''A'' (Some frame_no_speed) w0 = (Some (KeyError ''speed''), srv0, w0)"
    by (rule telemetry_counts_frame [where data = "Some frame_no_speed" and lib = lib0
          and srv = srv0 and s = "''A''" and w = w0,
          THEN conjunct2, THEN conjunct2, THEN conjunct1])
  with tr d1 have 3:
    "telemetry lib0 srv0 ''A'' (Some frame_no_speed) w0 = (Some (KeyError ''speed''), srv0, w0)"
    by simp
  have "truthy (Some frame0) \<and> decode lib0 (the (Some frame0)) = Inr (0, 0, 1.5, ''pixels'')
        \<and> preprocess srv_raise ''pixels'' w0 = (Inr ''pixels'', w0)
        \<and> kpart srv_raise ''pixels'' = Inl RunError \<longrightarrow>
      telemetry lib0 srv_raise ''A'' (Some frame0) w0 =
       (Some RunError, srv_raise, log (KpartRun ''pixels'') w0)"
    by (rule telemetry_counts_frame [where data = "Some frame0" and lib = lib0
          and srv = srv_raise and s = "''A''" and w = w0,
          THEN conjunct2, THEN conjunct2, THEN conjunct2, THEN conjunct2, THEN conjunct1])
  with tr d0 p1 k1 have 4: "telemetry lib0 srv_raise ''A'' (Some frame0) w0 =
       (Some RunError, srv_raise, w0\<lparr>trace := [KpartRun ''pixels'']\<rparr>)"
    by (simp add: log_def w0_def)
  have h: "timer_iter (timer srv0) = 0 \<longrightarrow>
      run lib0 (replicate 100 (Telemetry ''A'' None)) (srv0, wx) =
        (case on_frame ((timer srv0)\<lparr>timer_iter := 99\<rparr>)
           (wx\<lparr>trace := trace wx @ replicate 100
               (Emit \<lparr>e_event = ''manual'', e_data = [], e_room = None, e_skip_sid = PyTrue\<rparr>)\<rparr>)
         of (r, tm, w') \<Rightarrow> (srv0\<lparr>timer := tm\<rparr>, w'))" for wx :: "string world"
    by (rule telemetry_counts_frame [where lib = lib0 and srv = srv0 and s = "''A''" and w = wx,
          THEN conjunct2, THEN conjunct2, THEN conjunct2, THEN conjunct2, THEN conjunct2,
          THEN conjunct2, THEN conjunct2, THEN conjunct2, THEN conjunct2])
  have 5: "run lib0 (replicate 100 (Telemetry ''A'' None)) (srv0, w0\<lparr>ticks := 1\<rparr>) =
       (srv0\<lparr>timer := \<lparr>timer_t = 2, timer_iter = 0\<rparr>\<rparr>,
        w0\<lparr>ticks := 3,
           trace := replicate 100
               (Emit \<lparr>e_event = ''manual'', e_data = [], e_room = None, e_skip_sid = PyTrue\<rparr>)
             @ [PrintFps 100]\<rparr>)"
    using h [of "w0\<lparr>ticks := 1\<rparr>"] i
    by (simp add: srv0_def w0_def on_frame_def time_time_def log_def)
  have 6: "run lib0 (replicate 100 (Telemetry ''A'' None)) (srv0, w0) =
       (srv0\<lparr>timer := \<lparr>timer_t = 0, timer_iter = 100\<rparr>\<rparr>,
        w0\<lparr>ticks := 1,
           trace := replicate 100
               (Emit \<lparr>e_event = ''manual'', e_data = [], e_room = None, e_skip_sid = PyTrue\<rparr>)\<rparr>)"
    using h [of w0] i
    by (simp add: srv0_def w0_def on_frame_def time_time_def log_def)
  from 1 2 3 4 5 6 show ?thesis by blast
qed

text \<open>
  C10, as stated, covers every \<^verbatim>\<open>telemetry\<close> call. The payload without \<^verbatim>\<open>speed\<close>
  raises before \<^verbatim>\<open>on_frame\<close>: the counter is not advanced.
\<close>

theorem telemetry_raise_skips_on_frame:
  "timer_iter (timer (fst (snd (telemetry lib0 srv0 ''A'' (Some frame_no_speed) w0)))) =
     timer_iter (timer srv0)
   \<and> snd (telemetry lib0 srv0 ''A'' (Some frame_no_speed) w0) = (srv0, w0)"
  by (simp add: telemetry_def decode_def getitem_def lib0_def frame_no_speed_def)

end
